theory Spec2Isabelle
  imports Complex_Main
begin

section \<open>JavaScript values shared by the simulation core\<close>

text \<open>
  JavaScript numbers are modelled as exact reals: rounding, \<open>NaN\<close> and the infinities
  are outside the model.  Division by zero is 0 in HOL and \<open>Infinity\<close> or \<open>NaN\<close> in
  JavaScript, so every theorem that divides by a mass, a height or a step assumes it
  positive.  A \<open>TypeError\<close> raised by reading a property of \<open>undefined\<close> is a value
  of type \<open>js_error\<close>.
\<close>

datatype js_error = TypeError

text \<open>\<open>xs[i]\<close> on a JavaScript array: \<open>undefined\<close> out of range or at a null entry.\<close>

definition array_get :: "'a option list \<Rightarrow> nat \<Rightarrow> 'a option" where
  "array_get xs i = (if i < length xs then xs ! i else None)"

subsection \<open>three.js \<open>Vector3\<close>\<close>

datatype vector3 = Vector3 (vec_x: real) (vec_y: real) (vec_z: real)

definition v_zero :: vector3 where
  "v_zero = Vector3 0 0 0"

definition v_add :: "vector3 \<Rightarrow> vector3 \<Rightarrow> vector3" where
  "v_add a b = Vector3 (vec_x a + vec_x b) (vec_y a + vec_y b) (vec_z a + vec_z b)"

definition v_sub :: "vector3 \<Rightarrow> vector3 \<Rightarrow> vector3" where
  "v_sub a b = Vector3 (vec_x a - vec_x b) (vec_y a - vec_y b) (vec_z a - vec_z b)"

definition multiplyScalar :: "vector3 \<Rightarrow> real \<Rightarrow> vector3" where
  "multiplyScalar a s = Vector3 (vec_x a * s) (vec_y a * s) (vec_z a * s)"

definition divideScalar :: "vector3 \<Rightarrow> real \<Rightarrow> vector3" where
  "divideScalar a s = multiplyScalar a (1 / s)"

definition negate :: "vector3 \<Rightarrow> vector3" where
  "negate a = Vector3 (- vec_x a) (- vec_y a) (- vec_z a)"

definition dot :: "vector3 \<Rightarrow> vector3 \<Rightarrow> real" where
  "dot a b = vec_x a * vec_x b + vec_y a * vec_y b + vec_z a * vec_z b"

definition lengthSq :: "vector3 \<Rightarrow> real" where
  "lengthSq a = vec_x a * vec_x a + vec_y a * vec_y a + vec_z a * vec_z a"

definition v_length :: "vector3 \<Rightarrow> real" where
  "v_length a = sqrt (lengthSq a)"

text \<open>\<open>normalize()\<close> is \<open>divideScalar(length() || 1)\<close>: the zero vector stays zero.\<close>

definition normalize :: "vector3 \<Rightarrow> vector3" where
  "normalize a = divideScalar a (if v_length a = 0 then 1 else v_length a)"

definition distanceToSquared :: "vector3 \<Rightarrow> vector3 \<Rightarrow> real" where
  "distanceToSquared a b = lengthSq (v_sub a b)"

definition distanceTo :: "vector3 \<Rightarrow> vector3 \<Rightarrow> real" where
  "distanceTo a b = sqrt (distanceToSquared a b)"

text \<open>\<open>reflect(n)\<close> is \<open>this.sub(n.clone().multiplyScalar(2 * this.dot(n)))\<close>.\<close>

definition reflect :: "vector3 \<Rightarrow> vector3 \<Rightarrow> vector3" where
  "reflect a n = v_sub a (multiplyScalar n (2 * dot a n))"

section \<open>CheckpointSystem\<close>

subsection \<open>Arrays of lap times live in a store\<close>

text \<open>
  \<open>lapTimes\<close> is a JavaScript array: the object holds a reference to it, \<open>push\<close>
  mutates it in place, and \<open>getRaceState\<close> hands the reference out.  The store maps
  references to array contents.
\<close>

type_synonym ref = nat

record heap =
  arrays :: "ref \<Rightarrow> real list"
  next_ref :: ref

definition empty_heap :: heap where
  "empty_heap = \<lparr>arrays = (\<lambda>_. []), next_ref = 0\<rparr>"

text \<open>The array literal \<open>[]\<close>: a fresh empty array.\<close>

definition new_array :: "heap \<Rightarrow> ref \<times> heap" where
  "new_array h = (next_ref h, h\<lparr>arrays := (arrays h)(next_ref h := []), next_ref := Suc (next_ref h)\<rparr>)"

definition array_push :: "ref \<Rightarrow> real \<Rightarrow> heap \<Rightarrow> heap" where
  "array_push r v h = h\<lparr>arrays := (arrays h)(r := arrays h r @ [v])\<rparr>"

subsection \<open>State\<close>

record checkpoint =
  cp_position :: vector3
  cp_isStartFinish :: bool

text \<open>
  The three callbacks are opaque observers: the model records which are installed and
  logs every invocation with its arguments.  The checkpoint meshes
  (\<open>checkpointObjects\<close>) only carry colours and are left out.
\<close>

datatype event =
    CheckpointPassedEvent nat checkpoint
  | LapCompletedEvent nat real "real option"
  | RaceFinishedEvent real ref "real option"

record checkpoint_system =
  checkpoints :: "checkpoint option list"
  startFinishLine :: "checkpoint option"
  currentCheckpoint :: nat
  laps :: nat
  totalLaps :: nat
  lapTimes :: ref
  currentLapTime :: real
  bestLapTime :: "real option"
  raceStartTime :: real
  raceTime :: real
  isRaceStarted :: bool
  isRaceFinished :: bool
  onLapCompleted :: bool
  onCheckpointPassed :: bool
  onRaceFinished :: bool

definition CheckpointSystem_new :: "heap \<Rightarrow> heap \<times> checkpoint_system" where
  "CheckpointSystem_new h =
     (let (r, h') = new_array h in
      (h', \<lparr>checkpoints = [], startFinishLine = None, currentCheckpoint = 0, laps = 0,
            totalLaps = 3, lapTimes = r, currentLapTime = 0, bestLapTime = None,
            raceStartTime = 0, raceTime = 0, isRaceStarted = False, isRaceFinished = False,
            onLapCompleted = False, onCheckpointPassed = False, onRaceFinished = False\<rparr>))"

definition reset :: "heap \<Rightarrow> checkpoint_system \<Rightarrow> heap \<times> checkpoint_system" where
  "reset h s =
     (let (r, h') = new_array h in
      (h', s\<lparr>currentCheckpoint := 0, laps := 0, lapTimes := r, currentLapTime := 0,
             raceStartTime := 0, raceTime := 0, isRaceStarted := False,
             isRaceFinished := False\<rparr>))"

text \<open>\<open>checkpoints.find(cp => cp.isStartFinish)\<close>: a null entry reached by the scan raises.\<close>

fun find_startFinish :: "checkpoint option list \<Rightarrow> js_error + checkpoint option" where
  "find_startFinish [] = Inr None"
| "find_startFinish (None # cps) = Inl TypeError"
| "find_startFinish (Some cp # cps) =
     (if cp_isStartFinish cp then Inr (Some cp) else find_startFinish cps)"

record init_options =
  opt_totalLaps :: "nat option"
  opt_onLapCompleted :: bool
  opt_onCheckpointPassed :: bool
  opt_onRaceFinished :: bool

text \<open>\<open>options.totalLaps || 3\<close>: a missing or zero lap count becomes 3.\<close>

definition init :: "checkpoint option list option \<Rightarrow> init_options \<Rightarrow> heap \<Rightarrow> checkpoint_system
    \<Rightarrow> js_error + (heap \<times> checkpoint_system)" where
  "init cps options h s =
     (let s1 = s\<lparr>checkpoints := (case cps of None \<Rightarrow> [] | Some l \<Rightarrow> l),
                 totalLaps := (case opt_totalLaps options of None \<Rightarrow> 3
                                | Some n \<Rightarrow> if n = 0 then 3 else n),
                 onLapCompleted := opt_onLapCompleted options,
                 onCheckpointPassed := opt_onCheckpointPassed options,
                 onRaceFinished := opt_onRaceFinished options\<rparr>
      in case find_startFinish (checkpoints s1) of
           Inl e \<Rightarrow> Inl e
         | Inr sf \<Rightarrow> Inr (reset h (s1\<lparr>startFinishLine := sf\<rparr>)))"

text \<open>\<open>startRace\<close> reads the clock (\<open>performance.now()\<close>, passed in as \<open>now\<close>).\<close>

definition startRace :: "real \<Rightarrow> heap \<Rightarrow> checkpoint_system \<Rightarrow> heap \<times> checkpoint_system" where
  "startRace now h s =
     (let (h', s') = reset h s in (h', s'\<lparr>raceStartTime := now, isRaceStarted := True\<rparr>))"

subsection \<open>Checkpoint and lap progression\<close>

definition isVehicleAtCheckpoint :: "vector3 \<Rightarrow> checkpoint \<Rightarrow> bool" where
  "isVehicleAtCheckpoint vehiclePosition cp \<longleftrightarrow> distanceTo vehiclePosition (cp_position cp) < 10"

definition lapCompleted :: "heap \<Rightarrow> checkpoint_system \<Rightarrow> heap \<times> checkpoint_system \<times> event list" where
  "lapCompleted h s =
     (let h' = array_push (lapTimes s) (currentLapTime s) h;
          best = (case bestLapTime s of
                    None \<Rightarrow> Some (currentLapTime s)
                  | Some b \<Rightarrow> if currentLapTime s < b then Some (currentLapTime s) else Some b);
          s' = s\<lparr>bestLapTime := best, currentLapTime := 0\<rparr>
      in (h', s',
          if onLapCompleted s' then [LapCompletedEvent (laps s') (last (arrays h' (lapTimes s'))) best]
          else []))"

definition raceFinished :: "checkpoint_system \<Rightarrow> checkpoint_system \<times> event list" where
  "raceFinished s =
     (let s' = s\<lparr>isRaceFinished := True\<rparr>
      in (s', if onRaceFinished s' then [RaceFinishedEvent (raceTime s') (lapTimes s') (bestLapTime s')]
              else []))"

definition checkpointPassed :: "heap \<Rightarrow> checkpoint_system
    \<Rightarrow> js_error + (heap \<times> checkpoint_system \<times> event list)" where
  "checkpointPassed h s =
     (case array_get (checkpoints s) (currentCheckpoint s) of
        None \<Rightarrow> Inl TypeError
      | Some cp \<Rightarrow>
          (let (h1, s1, ev1) = (if cp_isStartFinish cp \<and> laps s > 0 then lapCompleted h s
                                else (h, s, []));
               ev2 = (if onCheckpointPassed s1 then [CheckpointPassedEvent (currentCheckpoint s1) cp]
                      else []);
               s2 = s1\<lparr>currentCheckpoint := (currentCheckpoint s1 + 1) mod length (checkpoints s1)\<rparr>;
               (s3, ev3) = (if currentCheckpoint s2 = 0
                            then (let s' = s2\<lparr>laps := laps s2 + 1\<rparr>
                                  in if laps s' \<ge> totalLaps s' then raceFinished s' else (s', []))
                            else (s2, []))
           in Inr (h1, s3, ev1 @ ev2 @ ev3)))"

text \<open>\<open>update\<close> reads the clock as well (\<open>now\<close>).\<close>

definition CheckpointSystem_update :: "real \<Rightarrow> real \<Rightarrow> vector3 \<Rightarrow> heap \<Rightarrow> checkpoint_system
    \<Rightarrow> js_error + (heap \<times> checkpoint_system \<times> event list)" where
  "CheckpointSystem_update now deltaTime vehiclePosition h s =
     (if \<not> isRaceStarted s \<or> isRaceFinished s then Inr (h, s, [])
      else (let s1 = s\<lparr>raceTime := (now - raceStartTime s) / 1000,
                         currentLapTime := currentLapTime s + deltaTime\<rparr>
            in case array_get (checkpoints s1) (currentCheckpoint s1) of
                 None \<Rightarrow> Inr (h, s1, [])
               | Some cp \<Rightarrow> if isVehicleAtCheckpoint vehiclePosition cp then checkpointPassed h s1
                            else Inr (h, s1, [])))"

subsection \<open>Sequences of updates\<close>

text \<open>
  A run feeds \<open>update\<close> one \<open>(clock reading, deltaTime, vehicle position)\<close> triple after
  another and collects the callback invocations in order.
\<close>

fun updates :: "(real \<times> real \<times> vector3) list \<Rightarrow> heap \<Rightarrow> checkpoint_system
    \<Rightarrow> js_error + (heap \<times> checkpoint_system \<times> event list)" where
  "updates [] h s = Inr (h, s, [])"
| "updates ((now, dt, pos) # inputs) h s =
     (case CheckpointSystem_update now dt pos h s of
        Inl e \<Rightarrow> Inl e
      | Inr (h', s', evs) \<Rightarrow>
          (case updates inputs h' s' of
             Inl e \<Rightarrow> Inl e
           | Inr (h'', s'', evs') \<Rightarrow> Inr (h'', s'', evs @ evs')))"

fun is_LapCompleted :: "event \<Rightarrow> bool" where
  "is_LapCompleted (LapCompletedEvent _ _ _) = True"
| "is_LapCompleted _ = False"

fun is_RaceFinished :: "event \<Rightarrow> bool" where
  "is_RaceFinished (RaceFinishedEvent _ _ _) = True"
| "is_RaceFinished _ = False"

subsection \<open>The four-checkpoint, two-lap scenario\<close>

definition track4 :: "checkpoint option list" where
  "track4 = [Some \<lparr>cp_position = Vector3 0 0 0, cp_isStartFinish = True\<rparr>,
             Some \<lparr>cp_position = Vector3 100 0 0, cp_isStartFinish = False\<rparr>,
             Some \<lparr>cp_position = Vector3 100 0 100, cp_isStartFinish = False\<rparr>,
             Some \<lparr>cp_position = Vector3 0 0 100, cp_isStartFinish = False\<rparr>]"

definition all_callbacks :: "nat \<Rightarrow> init_options" where
  "all_callbacks n = \<lparr>opt_totalLaps = Some n, opt_onLapCompleted = True,
      opt_onCheckpointPassed = True, opt_onRaceFinished = True\<rparr>"

text \<open>A vehicle position 5 units away from checkpoint \<open>i\<close> of a track.\<close>

definition near :: "checkpoint option list \<Rightarrow> nat \<Rightarrow> vector3" where
  "near track i = (case array_get track i of
                     Some cp \<Rightarrow> v_add (cp_position cp) (Vector3 3 0 4)
                   | None \<Rightarrow> v_zero)"

text \<open>
  Construct, \<open>init\<close> with the given track and lap count and all three callbacks,
  \<open>startRace\<close> at clock 0.
\<close>

definition race_start :: "checkpoint option list \<Rightarrow> nat \<Rightarrow> js_error + (heap \<times> checkpoint_system)" where
  "race_start track n =
     (let (h0, s0) = CheckpointSystem_new empty_heap in
      case init (Some track) (all_callbacks n) h0 s0 of
        Inl e \<Rightarrow> Inl e
      | Inr (h1, s1) \<Rightarrow> Inr (startRace 0 h1 s1))"

text \<open>
  Position updates near checkpoints 0,1,2,3,0,1,2,3,0 and then 0 once more, one per
  second of clock time, each with \<open>deltaTime = 1\<close>.
\<close>

definition scenario_inputs :: "(real \<times> real \<times> vector3) list" where
  "scenario_inputs = map (\<lambda>(k, i). (1000 * real k, 1, near track4 i))
      (zip [1 ..< 11] [0, 1, 2, 3, 0, 1, 2, 3, 0, 0])"

definition scenario_run :: "nat \<Rightarrow> js_error + (heap \<times> checkpoint_system \<times> event list)" where
  "scenario_run n = (case race_start track4 2 of
                       Inl e \<Rightarrow> Inl e
                     | Inr (h, s) \<Rightarrow> updates (take n scenario_inputs) h s)"

text \<open>A track whose only checkpoint is the start/finish line.\<close>

definition track1 :: "checkpoint option list" where
  "track1 = [Some \<lparr>cp_position = Vector3 0 0 0, cp_isStartFinish = True\<rparr>]"

subsection \<open>A full race\<close>

text \<open>
  Drive the vehicle through the track: each update finds it exactly at the checkpoint
  that is current.
\<close>

fun drive :: "nat \<Rightarrow> real \<Rightarrow> real \<Rightarrow> heap \<Rightarrow> checkpoint_system
    \<Rightarrow> js_error + (heap \<times> checkpoint_system \<times> event list)" where
  "drive 0 now dt h s = Inr (h, s, [])"
| "drive (Suc n) now dt h s =
     (case array_get (checkpoints s) (currentCheckpoint s) of
        None \<Rightarrow> Inr (h, s, [])
      | Some cp \<Rightarrow>
          (case CheckpointSystem_update now dt (cp_position cp) h s of
             Inl e \<Rightarrow> Inl e
           | Inr (h', s', evs) \<Rightarrow>
               (case drive n now dt h' s' of
                  Inl e \<Rightarrow> Inl e
                | Inr (h'', s'', evs') \<Rightarrow> Inr (h'', s'', evs @ evs'))))"

text \<open>
  A well-formed track: not empty, every entry present, the start/finish line at index
  0 and nowhere else.
\<close>

definition start_finish_first :: "checkpoint option list \<Rightarrow> bool" where
  "start_finish_first cps \<longleftrightarrow>
     cps \<noteq> [] \<and> (\<forall>i < length cps. \<exists>cp. cps ! i = Some cp \<and> (cp_isStartFinish cp \<longleftrightarrow> i = 0))"

text \<open>The state after \<open>k\<close> checkpoints have been passed since \<open>startRace\<close>.\<close>

definition progress :: "nat \<Rightarrow> heap \<Rightarrow> checkpoint_system \<Rightarrow> bool" where
  "progress k h s \<longleftrightarrow>
     isRaceStarted s
     \<and> currentCheckpoint s = k mod length (checkpoints s)
     \<and> laps s = k div length (checkpoints s)
     \<and> length (arrays h (lapTimes s)) = (k - 1) div length (checkpoints s)
     \<and> (isRaceFinished s \<longleftrightarrow> k = length (checkpoints s) * totalLaps s)"

text \<open>
  What \<open>checkpointPassed\<close> leaves in the object when the current checkpoint is \<open>cp\<close>.
\<close>

definition after_pass :: "checkpoint \<Rightarrow> checkpoint_system \<Rightarrow> checkpoint_system" where
  "after_pass cp s =
     (let lap = (cp_isStartFinish cp \<and> laps s > 0);
          s1 = (if lap then s\<lparr>bestLapTime := (case bestLapTime s of
                                     None \<Rightarrow> Some (currentLapTime s)
                                   | Some b \<Rightarrow> if currentLapTime s < b
                                               then Some (currentLapTime s) else Some b),
                                 currentLapTime := 0\<rparr>
                else s);
          c = (currentCheckpoint s + 1) mod length (checkpoints s);
          s2 = s1\<lparr>currentCheckpoint := c\<rparr>
      in if c = 0 then s2\<lparr>laps := laps s + 1, isRaceFinished := (isRaceFinished s \<or> totalLaps s \<le> laps s + 1)\<rparr>
         else s2)"

subsection \<open>Snapshots\<close>

text \<open>
  \<open>getRaceState\<close> builds a fresh object literal; its \<open>lapTimes\<close> field is assigned
  \<open>this.lapTimes\<close>, the reference to the live array.
\<close>

record race_state =
  rs_currentCheckpoint :: nat
  rs_totalCheckpoints :: nat
  rs_currentLap :: nat
  rs_totalLaps :: nat
  rs_currentLapTime :: real
  rs_bestLapTime :: "real option"
  rs_lapTimes :: ref
  rs_raceTime :: real
  rs_isRaceStarted :: bool
  rs_isRaceFinished :: bool

definition getRaceState :: "checkpoint_system \<Rightarrow> race_state" where
  "getRaceState s =
     \<lparr>rs_currentCheckpoint = currentCheckpoint s,
      rs_totalCheckpoints = length (checkpoints s),
      rs_currentLap = laps s + 1,
      rs_totalLaps = totalLaps s,
      rs_currentLapTime = currentLapTime s,
      rs_bestLapTime = bestLapTime s,
      rs_lapTimes = lapTimes s,
      rs_raceTime = raceTime s,
      rs_isRaceStarted = isRaceStarted s,
      rs_isRaceFinished = isRaceFinished s\<rparr>"

section \<open>CollisionSystem\<close>

subsection \<open>three.js \<open>Box3\<close> and \<open>Sphere\<close>\<close>

record box3 =
  box_min :: vector3
  box_max :: vector3

record sphere =
  center :: vector3
  radius :: real

definition isEmpty :: "box3 \<Rightarrow> bool" where
  "isEmpty b \<longleftrightarrow> vec_x (box_max b) < vec_x (box_min b) \<or> vec_y (box_max b) < vec_y (box_min b)
                 \<or> vec_z (box_max b) < vec_z (box_min b)"

text \<open>
  \<open>Box3.getBoundingSphere\<close>: the empty box gives the empty sphere (centre 0, radius -1),
  any other box its centre and half its diagonal.
\<close>

definition getBoundingSphere :: "box3 \<Rightarrow> sphere" where
  "getBoundingSphere b =
     (if isEmpty b then \<lparr>center = v_zero, radius = - 1\<rparr>
      else \<lparr>center = multiplyScalar (v_add (box_min b) (box_max b)) 0.5,
            radius = v_length (v_sub (box_max b) (box_min b)) * 0.5\<rparr>)"

definition intersectsSphere :: "sphere \<Rightarrow> sphere \<Rightarrow> bool" where
  "intersectsSphere a b \<longleftrightarrow>
     distanceToSquared (center b) (center a) \<le> (radius a + radius b) * (radius a + radius b)"

definition intersectsBox :: "box3 \<Rightarrow> box3 \<Rightarrow> bool" where
  "intersectsBox a b \<longleftrightarrow>
     vec_x (box_max b) \<ge> vec_x (box_min a) \<and> vec_x (box_min b) \<le> vec_x (box_max a)
     \<and> vec_y (box_max b) \<ge> vec_y (box_min a) \<and> vec_y (box_min b) \<le> vec_y (box_max a)
     \<and> vec_z (box_max b) \<ge> vec_z (box_min a) \<and> vec_z (box_min b) \<le> vec_z (box_max a)"

subsection \<open>Registered objects\<close>

text \<open>
  A registered object carries \<open>userData.collider\<close> and, optionally, \<open>userData.physics\<close>
  with an optional \<open>velocity\<close> and \<open>mass\<close>.  \<open>obj_bounds\<close> is the box that
  \<open>Box3.setFromObject(object)\<close> computes from the object's geometry and world transform
  at this moment.  A callback is the default response or a custom function; a custom
  function is an opaque observer whose effect on the objects is not modelled.  Distinct
  entries of the two collider lists are distinct objects with vectors of their own.
\<close>

datatype callback = DefaultCollisionResponse | CustomCallback nat

record physics =
  ph_velocity :: "vector3 option"
  ph_mass :: "real option"

record collider =
  boundingBox :: box3
  boundingSphere :: sphere
  onCollision :: "callback option"
  isStatic :: bool

record game_object =
  obj_bounds :: box3
  obj_collider :: collider
  obj_physics :: "physics option"

record collision_system =
  colliders :: "game_object list"
  staticColliders :: "game_object list"

definition CollisionSystem_new :: collision_system where
  "CollisionSystem_new = \<lparr>colliders = [], staticColliders = []\<rparr>"

text \<open>\<open>registerCollider(object, onCollision)\<close>: no callback given means the default response.\<close>

definition registerCollider :: "game_object \<Rightarrow> callback option \<Rightarrow> collision_system \<Rightarrow> collision_system" where
  "registerCollider obj cb cs =
     cs\<lparr>colliders := colliders cs @
         [obj\<lparr>obj_collider :=
                \<lparr>boundingBox = obj_bounds obj,
                 boundingSphere = getBoundingSphere (obj_bounds obj),
                 onCollision = (case cb of None \<Rightarrow> Some DefaultCollisionResponse | Some f \<Rightarrow> Some f),
                 isStatic = False\<rparr>\<rparr>]\<rparr>"

definition registerStaticCollider :: "game_object \<Rightarrow> collision_system \<Rightarrow> collision_system" where
  "registerStaticCollider obj cs =
     cs\<lparr>staticColliders := staticColliders cs @
         [obj\<lparr>obj_collider :=
                \<lparr>boundingBox = obj_bounds obj,
                 boundingSphere = getBoundingSphere (obj_bounds obj),
                 onCollision = None,
                 isStatic = True\<rparr>\<rparr>]\<rparr>"

definition updateCollider :: "game_object \<Rightarrow> game_object" where
  "updateCollider obj =
     obj\<lparr>obj_collider := (obj_collider obj)
           \<lparr>boundingBox := obj_bounds obj,
            boundingSphere := getBoundingSphere (obj_bounds obj)\<rparr>\<rparr>"

subsection \<open>The default response\<close>

text \<open>
  \<open>mass || 1\<close> for the object itself; \<open>mass || Infinity\<close> for the other one, \<open>None\<close>
  standing for \<open>Infinity\<close>.
\<close>

definition self_mass :: "physics \<Rightarrow> real" where
  "self_mass p = (case ph_mass p of None \<Rightarrow> 1 | Some m \<Rightarrow> if m = 0 then 1 else m)"

definition other_mass :: "physics \<Rightarrow> real option" where
  "other_mass p = (case ph_mass p of None \<Rightarrow> None | Some m \<Rightarrow> if m = 0 then None else Some m)"

definition set_velocity :: "vector3 \<Rightarrow> game_object \<Rightarrow> game_object" where
  "set_velocity v obj =
     obj\<lparr>obj_physics := map_option (\<lambda>p. p\<lparr>ph_velocity := Some v\<rparr>) (obj_physics obj)\<rparr>"

text \<open>
  Both final velocities are computed from clones before either is written.  Reading
  \<open>v1.clone()\<close> or calling \<open>velocity.copy\<close> on a missing velocity raises.
\<close>

definition defaultCollisionResponse :: "game_object \<Rightarrow> game_object \<Rightarrow> vector3 \<Rightarrow> vector3
    \<Rightarrow> js_error + (game_object \<times> game_object)" where
  "defaultCollisionResponse self other collisionPoint collisionNormal =
     (case (obj_physics self, obj_physics other) of
        (Some p1, Some p2) \<Rightarrow>
          (let v2 = (case ph_velocity p2 of None \<Rightarrow> v_zero | Some v \<Rightarrow> v);
               m1 = self_mass p1
           in case ph_velocity p1 of
                None \<Rightarrow> Inl TypeError
              | Some v1 \<Rightarrow>
                  (case other_mass p2 of
                     Some m2 \<Rightarrow>
                       (let v1Final = v_sub v1 (multiplyScalar collisionNormal
                                         (2 * m2 / (m1 + m2) * dot (v_sub v1 v2) collisionNormal));
                            v2Final = v_sub v2 (multiplyScalar collisionNormal
                                         (2 * m1 / (m1 + m2) * dot (v_sub v2 v1) collisionNormal))
                        in case ph_velocity p2 of
                             None \<Rightarrow> Inl TypeError
                           | Some _ \<Rightarrow> Inr (set_velocity (multiplyScalar v1Final 0.8) self,
                                            set_velocity (multiplyScalar v2Final 0.8) other))
                   | None \<Rightarrow>
                       Inr (set_velocity (multiplyScalar (reflect v1 collisionNormal) 0.5) self,
                            other)))
      | _ \<Rightarrow> Inr (self, other))"

subsection \<open>The update pass\<close>

datatype obj_id = Dynamic nat | Static nat

record invocation =
  inv_self :: obj_id
  inv_other :: obj_id
  inv_point :: vector3
  inv_normal :: vector3

fun get_object :: "collision_system \<Rightarrow> obj_id \<Rightarrow> game_object" where
  "get_object cs (Dynamic i) = colliders cs ! i"
| "get_object cs (Static k) = staticColliders cs ! k"

fun set_object :: "obj_id \<Rightarrow> game_object \<Rightarrow> collision_system \<Rightarrow> collision_system" where
  "set_object (Dynamic i) obj cs = cs\<lparr>colliders := (colliders cs)[i := obj]\<rparr>"
| "set_object (Static k) obj cs = cs\<lparr>staticColliders := (staticColliders cs)[k := obj]\<rparr>"

text \<open>
  \<open>if (obj.userData.collider.onCollision) obj.userData.collider.onCollision(self, other,
  point, normal)\<close>: the call is logged, and the default response rewrites the velocities.
\<close>

definition invoke :: "obj_id \<Rightarrow> obj_id \<Rightarrow> vector3 \<Rightarrow> vector3 \<Rightarrow> collision_system \<times> invocation list
    \<Rightarrow> js_error + (collision_system \<times> invocation list)" where
  "invoke self other point normal st =
     (let (cs, calls) = st;
          call = \<lparr>inv_self = self, inv_other = other, inv_point = point, inv_normal = normal\<rparr>
      in case onCollision (obj_collider (get_object cs self)) of
           None \<Rightarrow> Inr (cs, calls)
         | Some (CustomCallback f) \<Rightarrow> Inr (cs, calls @ [call])
         | Some DefaultCollisionResponse \<Rightarrow>
             (case defaultCollisionResponse (get_object cs self) (get_object cs other) point normal of
                Inl e \<Rightarrow> Inl e
              | Inr (self', other') \<Rightarrow>
                  Inr (set_object other other' (set_object self self' cs), calls @ [call])))"

fun foldE :: "('a \<Rightarrow> 's \<Rightarrow> 'e + 's) \<Rightarrow> 'a list \<Rightarrow> 's \<Rightarrow> 'e + 's" where
  "foldE f [] s = Inr s"
| "foldE f (x # xs) s = (case f x s of Inl e \<Rightarrow> Inl e | Inr s' \<Rightarrow> foldE f xs s')"

text \<open>
  The body of the inner loops.  \<open>collisionPoint\<close> is \<open>new Vector3()\<close>: the midpoint is
  computed on a clone of the first centre and the result is dropped.
\<close>

definition check_dynamic :: "nat \<Rightarrow> nat \<Rightarrow> collision_system \<times> invocation list
    \<Rightarrow> js_error + (collision_system \<times> invocation list)" where
  "check_dynamic i j st =
     (let objA = obj_collider (colliders (fst st) ! i);
          objB = obj_collider (colliders (fst st) ! j)
      in if intersectsSphere (boundingSphere objA) (boundingSphere objB)
            \<and> intersectsBox (boundingBox objA) (boundingBox objB)
         then (let collisionPoint = v_zero;
                   collisionNormal = normalize (v_sub (center (boundingSphere objB))
                                                      (center (boundingSphere objA)))
               in case invoke (Dynamic i) (Dynamic j) collisionPoint collisionNormal st of
                    Inl e \<Rightarrow> Inl e
                  | Inr st' \<Rightarrow> invoke (Dynamic j) (Dynamic i) collisionPoint (negate collisionNormal) st')
         else Inr st)"

definition check_static :: "nat \<Rightarrow> nat \<Rightarrow> collision_system \<times> invocation list
    \<Rightarrow> js_error + (collision_system \<times> invocation list)" where
  "check_static i k st =
     (let objA = obj_collider (colliders (fst st) ! i);
          staticObj = obj_collider (staticColliders (fst st) ! k)
      in if intersectsSphere (boundingSphere objA) (boundingSphere staticObj)
            \<and> intersectsBox (boundingBox objA) (boundingBox staticObj)
         then (let collisionPoint = v_zero;
                   collisionNormal = normalize (v_sub (center (boundingSphere staticObj))
                                                      (center (boundingSphere objA)))
               in invoke (Dynamic i) (Static k) collisionPoint collisionNormal st)
         else Inr st)"

definition CollisionSystem_update :: "real \<Rightarrow> collision_system
    \<Rightarrow> js_error + (collision_system \<times> invocation list)" where
  "CollisionSystem_update deltaTime cs =
     (let cs1 = cs\<lparr>colliders := map updateCollider (colliders cs)\<rparr>;
          n = length (colliders cs1)
      in foldE (\<lambda>i st. case foldE (check_dynamic i) [Suc i ..< n] st of
                          Inl e \<Rightarrow> Inl e
                        | Inr st' \<Rightarrow> foldE (check_static i) [0 ..< length (staticColliders cs1)] st')
           [0 ..< n] (cs1, []))"

subsection \<open>Two boxes in contact\<close>

text \<open>
  A box with physics, not yet registered: its collider is a placeholder that
  registration replaces.
\<close>

definition body :: "vector3 \<Rightarrow> vector3 \<Rightarrow> vector3 \<Rightarrow> real \<Rightarrow> game_object" where
  "body lo hi v m =
     \<lparr>obj_bounds = \<lparr>box_min = lo, box_max = hi\<rparr>,
      obj_collider = \<lparr>boundingBox = \<lparr>box_min = v_zero, box_max = v_zero\<rparr>,
                      boundingSphere = \<lparr>center = v_zero, radius = 0\<rparr>,
                      onCollision = None, isStatic = False\<rparr>,
      obj_physics = Some \<lparr>ph_velocity = Some v, ph_mass = Some m\<rparr>\<rparr>"

definition two_bodies :: collision_system where
  "two_bodies =
     registerCollider (body (Vector3 1 0 0) (Vector3 3 2 2) (Vector3 0 0 0) 1) None
       (registerCollider (body (Vector3 0 0 0) (Vector3 2 2 2) (Vector3 1 0 0) 1) None
          CollisionSystem_new)"

text \<open>
  The sum of mass times velocity over the dynamic colliders, with the mass as the
  default response reads it (\<open>mass || 1\<close>).
\<close>

definition total_momentum :: "collision_system \<Rightarrow> vector3" where
  "total_momentum cs =
     foldr v_add
       (map (\<lambda>obj. case obj_physics obj of
                      Some p \<Rightarrow> (case ph_velocity p of
                                   Some v \<Rightarrow> multiplyScalar v (self_mass p)
                                 | None \<Rightarrow> v_zero)
                    | None \<Rightarrow> v_zero) (colliders cs))
       v_zero"

text \<open>The two entries of \<open>colliders two_bodies\<close>, as registration leaves them.\<close>

definition bodyA :: game_object where
  "bodyA = (body (Vector3 0 0 0) (Vector3 2 2 2) (Vector3 1 0 0) 1)
        \<lparr>obj_collider := \<lparr>boundingBox = \<lparr>box_min = Vector3 0 0 0, box_max = Vector3 2 2 2\<rparr>,
            boundingSphere = getBoundingSphere \<lparr>box_min = Vector3 0 0 0, box_max = Vector3 2 2 2\<rparr>,
            onCollision = Some DefaultCollisionResponse, isStatic = False\<rparr>\<rparr>"

definition bodyB :: game_object where
  "bodyB = (body (Vector3 1 0 0) (Vector3 3 2 2) (Vector3 0 0 0) 1)
        \<lparr>obj_collider := \<lparr>boundingBox = \<lparr>box_min = Vector3 1 0 0, box_max = Vector3 3 2 2\<rparr>,
            boundingSphere = getBoundingSphere \<lparr>box_min = Vector3 1 0 0, box_max = Vector3 3 2 2\<rparr>,
            onCollision = Some DefaultCollisionResponse, isStatic = False\<rparr>\<rparr>"

text \<open>Every logged call was handed the origin as its collision point.\<close>

definition points_at_origin :: "collision_system \<times> invocation list \<Rightarrow> bool" where
  "points_at_origin st \<longleftrightarrow> (\<forall>c \<in> set (snd st). inv_point c = v_zero)"

section \<open>VehiclePhysics\<close>

subsection \<open>three.js \<open>Quaternion\<close>\<close>

datatype quaternion = Quaternion (q_x: real) (q_y: real) (q_z: real) (q_w: real)

definition q_identity :: quaternion where
  "q_identity = Quaternion 0 0 0 1"







subsection \<open>Configuration and state\<close>

record vehicle_config =
  maxSpeed :: real
  acceleration :: real
  deceleration :: real
  braking :: real
  maxSteeringAngle :: real
  steeringSpeed :: real
  steeringReturn :: real
  suspensionHeight :: real
  suspensionStiffness :: real
  suspensionDamping :: real
  suspensionTravel :: real
  mass :: real
  dragCoefficient :: real
  rollingResistance :: real
  wheelBase :: real
  trackWidth :: real
  wheelRadius :: real

text \<open>The constructor's defaults; a caller's \<open>vehicleConfig\<close> overrides any of them.\<close>

definition default_config :: vehicle_config where
  "default_config =
     \<lparr>maxSpeed = 200, acceleration = 10, deceleration = 5, braking = 15,
      maxSteeringAngle = pi / 6, steeringSpeed = 2.5, steeringReturn = 1.0,
      suspensionHeight = 0.5, suspensionStiffness = 10.0, suspensionDamping = 0.8,
      suspensionTravel = 0.3, mass = 1200, dragCoefficient = 0.3, rollingResistance = 0.1,
      wheelBase = 2.8, trackWidth = 1.6, wheelRadius = 0.35\<rparr>"

record wheel =
  wh_position :: vector3
  onGround :: bool
  suspensionForce :: real
  wh_rotation :: real

record vehicle_state =
  position :: vector3
  rotation :: quaternion
  velocity :: vector3
  angularVelocity :: vector3
  throttle :: real
  brake :: real
  steering :: real
  wheels :: "wheel list"
  speedKmh :: real
  rpm :: real
  gear :: nat

record vehicle_physics =
  config :: vehicle_config
  state :: vehicle_state

definition new_wheel :: "real \<Rightarrow> real \<Rightarrow> wheel" where
  "new_wheel px pz = \<lparr>wh_position = Vector3 px 0 pz, onGround = False, suspensionForce = 0,
                       wh_rotation = 0\<rparr>"

definition VehiclePhysics_new :: "vehicle_config \<Rightarrow> vehicle_physics" where
  "VehiclePhysics_new c =
     \<lparr>config = c,
      state = \<lparr>position = Vector3 0 (suspensionHeight c) 0,
               rotation = q_identity,
               velocity = Vector3 0 0 0,
               angularVelocity = Vector3 0 0 0,
               throttle = 0, brake = 0, steering = 0,
               wheels = [new_wheel (- trackWidth c / 2) (wheelBase c / 2),
                         new_wheel (trackWidth c / 2) (wheelBase c / 2),
                         new_wheel (- trackWidth c / 2) (- wheelBase c / 2),
                         new_wheel (trackWidth c / 2) (- wheelBase c / 2)],
               speedKmh = 0, rpm = 0, gear = 1\<rparr>\<rparr>"

subsection \<open>Controls\<close>

record controls =
  c_throttle :: "real option"
  c_brake :: "real option"
  c_steering :: "real option"

definition setControls :: "controls \<Rightarrow> vehicle_physics \<Rightarrow> vehicle_physics" where
  "setControls ctl v =
     (let st0 = state v;
          st1 = (case c_throttle ctl of
                   None \<Rightarrow> st0
                 | Some t \<Rightarrow> st0\<lparr>throttle := max (- 1) (min 1 t)\<rparr>);
          st2 = (case c_brake ctl of
                   None \<Rightarrow> st1
                 | Some b \<Rightarrow> st1\<lparr>brake := max 0 (min 1 b)\<rparr>);
          st3 = (case c_steering ctl of
                   None \<Rightarrow> st2
                 | Some s \<Rightarrow>
                     (let targetSteering = max (- 1) (min 1 s)
                      in if steering st2 < targetSteering
                         then st2\<lparr>steering := min targetSteering
                                    (steering st2 + steeringSpeed (config v) * 0.016)\<rparr>
                         else if steering st2 > targetSteering
                         then st2\<lparr>steering := max targetSteering
                                    (steering st2 - steeringSpeed (config v) * 0.016)\<rparr>
                         else st2))
      in v\<lparr>state := st3\<rparr>)"

subsection \<open>Suspension\<close>



subsection \<open>Forces\<close>


subsection \<open>The update step\<close>




text \<open>A steering request of 1 with throttle and brake left alone.\<close>

definition steer_full :: controls where
  "steer_full = \<lparr>c_throttle = None, c_brake = None, c_steering = Some 1\<rparr>"

subsection \<open>A vehicle standing upright on flat ground\<close>




subsection \<open>Steering over a run of updates\<close>







section \<open>GameLoop\<close>

text \<open>
  Callbacks are opaque observers, identified by a number; every invocation is logged
  with its argument.  \<open>requestAnimationFrame\<close> returns a handle, passed in as \<open>handle\<close>.
\<close>

datatype loop_call = FixedUpdateCall nat real | UpdateCall nat real | RenderCall nat real

record game_loop =
  lastTime :: real
  deltaTime :: real
  frameCount :: nat
  fpsTime :: real
  fps :: nat
  isRunning :: bool
  fixedTimeStep :: real
  maxDeltaTime :: real
  accumulatedTime :: real
  timeScale :: real
  updateCallbacks :: "nat list"
  renderCallbacks :: "nat list"
  fixedUpdateCallbacks :: "nat list"
  animationFrameId :: "nat option"

definition GameLoop_new :: game_loop where
  "GameLoop_new =
     \<lparr>lastTime = 0, deltaTime = 0, frameCount = 0, fpsTime = 0, fps = 0, isRunning = False,
      fixedTimeStep = 1 / 60, maxDeltaTime = 0.1, accumulatedTime = 0, timeScale = 1.0,
      updateCallbacks = [], renderCallbacks = [], fixedUpdateCallbacks = [],
      animationFrameId = None\<rparr>"

text \<open>\<open>start\<close> reads the clock (\<open>performance.now()\<close>, passed in as \<open>now\<close>).\<close>

definition start :: "real \<Rightarrow> nat \<Rightarrow> game_loop \<Rightarrow> game_loop" where
  "start now handle gl =
     (if isRunning gl then gl
      else gl\<lparr>isRunning := True, lastTime := now / 1000, animationFrameId := Some handle\<rparr>)"

definition stop :: "game_loop \<Rightarrow> game_loop" where
  "stop gl =
     (if \<not> isRunning gl then gl
      else gl\<lparr>isRunning := False, animationFrameId := None\<rparr>)"

definition onUpdate :: "nat \<Rightarrow> game_loop \<Rightarrow> game_loop" where
  "onUpdate cb gl = gl\<lparr>updateCallbacks := updateCallbacks gl @ [cb]\<rparr>"

definition onRender :: "nat \<Rightarrow> game_loop \<Rightarrow> game_loop" where
  "onRender cb gl = gl\<lparr>renderCallbacks := renderCallbacks gl @ [cb]\<rparr>"

definition onFixedUpdate :: "nat \<Rightarrow> game_loop \<Rightarrow> game_loop" where
  "onFixedUpdate cb gl = gl\<lparr>fixedUpdateCallbacks := fixedUpdateCallbacks gl @ [cb]\<rparr>"

definition removeCallback :: "nat \<Rightarrow> game_loop \<Rightarrow> game_loop" where
  "removeCallback cb gl =
     gl\<lparr>updateCallbacks := filter (\<lambda>c. c \<noteq> cb) (updateCallbacks gl),
        renderCallbacks := filter (\<lambda>c. c \<noteq> cb) (renderCallbacks gl),
        fixedUpdateCallbacks := filter (\<lambda>c. c \<noteq> cb) (fixedUpdateCallbacks gl)\<rparr>"

definition setFixedTimeStep :: "real \<Rightarrow> game_loop \<Rightarrow> game_loop" where
  "setFixedTimeStep timeStep gl = gl\<lparr>fixedTimeStep := timeStep\<rparr>"

definition setTimeScale :: "real \<Rightarrow> game_loop \<Rightarrow> game_loop" where
  "setTimeScale scale gl = gl\<lparr>timeScale := max 0 scale\<rparr>"

text \<open>One pass over the fixed-update callbacks, each called with the step.\<close>

definition fixed_tick :: "nat list \<Rightarrow> real \<Rightarrow> loop_call list" where
  "fixed_tick cbs step = map (\<lambda>cb. FixedUpdateCall cb step) cbs"

text \<open>
  \<open>while (accumulatedTime >= fixedTimeStep) { callbacks; accumulatedTime -= fixedTimeStep }\<close>.
  Not returning is the value \<open>None\<close>.
\<close>

partial_function (option) fixed_updates :: "nat list \<Rightarrow> real \<Rightarrow> real \<Rightarrow> loop_call list
    \<Rightarrow> (real \<times> loop_call list) option" where
  "fixed_updates cbs step acc calls =
     (if acc \<ge> step then fixed_updates cbs step (acc - step) (calls @ fixed_tick cbs step)
      else Some (acc, calls))"

definition onFrame :: "real \<Rightarrow> nat \<Rightarrow> game_loop \<Rightarrow> (game_loop \<times> loop_call list) option" where
  "onFrame timestamp handle gl =
     (if \<not> isRunning gl then Some (gl, [])
      else (let currentTime = timestamp / 1000;
                dt = min (currentTime - lastTime gl) (maxDeltaTime gl);
                gl1 = gl\<lparr>deltaTime := dt, lastTime := currentTime\<rparr>;
                scaledDeltaTime = deltaTime gl1 * timeScale gl1;
                gl2 = gl1\<lparr>frameCount := frameCount gl1 + 1, fpsTime := fpsTime gl1 + deltaTime gl1\<rparr>;
                gl3 = (if fpsTime gl2 \<ge> 1.0
                       then gl2\<lparr>fps := frameCount gl2, frameCount := 0, fpsTime := fpsTime gl2 - 1.0\<rparr>
                       else gl2);
                gl4 = gl3\<lparr>accumulatedTime := accumulatedTime gl3 + scaledDeltaTime\<rparr>
            in case fixed_updates (fixedUpdateCallbacks gl4) (fixedTimeStep gl4)
                      (accumulatedTime gl4) [] of
                 None \<Rightarrow> None
               | Some (acc, calls) \<Rightarrow>
                   Some (gl4\<lparr>accumulatedTime := acc, animationFrameId := Some handle\<rparr>,
                         calls @ map (\<lambda>cb. UpdateCall cb scaledDeltaTime) (updateCallbacks gl4)
                               @ map (\<lambda>cb. RenderCall cb scaledDeltaTime) (renderCallbacks gl4))))"


section \<open>Properties of the checkpoint system\<close>

lemma isVehicleAtCheckpoint_iff:
  "isVehicleAtCheckpoint p cp \<longleftrightarrow> distanceToSquared p (cp_position cp) < 100"
proof -
  have "sqrt x < 10 \<longleftrightarrow> x < 100" for x :: real
    using real_sqrt_less_iff [of x 100] by simp
  then show ?thesis by (simp add: isVehicleAtCheckpoint_def distanceTo_def)
qed

lemmas scenario_defs = race_start_def CheckpointSystem_new_def init_def track4_def
  all_callbacks_def startRace_def reset_def new_array_def empty_heap_def Let_def
  scenario_run_def scenario_inputs_def near_def array_get_def CheckpointSystem_update_def
  checkpointPassed_def lapCompleted_def raceFinished_def isVehicleAtCheckpoint_iff
  distanceToSquared_def lengthSq_def v_sub_def v_add_def array_push_def


lemma update_never_raises:
  "\<exists>r. CheckpointSystem_update now dt pos h s = Inr r"
  by (auto simp: CheckpointSystem_update_def checkpointPassed_def Let_def
      split: option.splits prod.splits)

text \<open>
  C9. With no checkpoint at the current index (an empty list, an index out of range or
  a null entry), \<open>update\<close> raises nothing, fires no callback, leaves the store and all
  progression state alone; while the race is started and not finished it advances only
  \<open>raceTime\<close> and \<open>currentLapTime\<close>, and otherwise it changes nothing.
\<close>

theorem update_absent_checkpoint:
  assumes "array_get (checkpoints s) (currentCheckpoint s) = None"
  shows "\<exists>s'. CheckpointSystem_update now dt pos h s = Inr (h, s', [])
           \<and> currentCheckpoint s' = currentCheckpoint s \<and> laps s' = laps s
           \<and> lapTimes s' = lapTimes s \<and> bestLapTime s' = bestLapTime s
           \<and> isRaceFinished s' = isRaceFinished s
           \<and> s' = (if isRaceStarted s \<and> \<not> isRaceFinished s
                   then s\<lparr>raceTime := (now - raceStartTime s) / 1000,
                          currentLapTime := currentLapTime s + dt\<rparr>
                   else s)"
  using assms by (simp add: CheckpointSystem_update_def Let_def)

theorem update_absent_checkpoint_witness:
  "\<exists>h0 s0 s'. race_start [] 3 = Inr (h0, s0)
     \<and> array_get (checkpoints s0) (currentCheckpoint s0) = None
     \<and> CheckpointSystem_update 1000 1 (Vector3 1 2 3) h0 s0 = Inr (h0, s', [])
     \<and> s' = s0\<lparr>raceTime := 1, currentLapTime := 1\<rparr>"
proof -
  obtain h0 s0 where r: "race_start [] 3 = Inr (h0, s0)"
    by (simp add: scenario_defs)
  then have a: "array_get (checkpoints s0) (currentCheckpoint s0) = None"
    and b: "isRaceStarted s0" "\<not> isRaceFinished s0" "raceStartTime s0 = 0" "currentLapTime s0 = 0"
    by (auto simp: scenario_defs)
  from update_absent_checkpoint [OF a, of 1000 1 "Vector3 1 2 3" h0] r a b
  show ?thesis by auto
qed

subsection \<open>The first crossing of the start/finish line\<close>

lemma update_before_sf:
  assumes "array_get (checkpoints s) k = Some sf"
    and "\<not> isVehicleAtCheckpoint pos sf"
    and "currentCheckpoint s \<le> k" "laps s = 0" "arrays h (lapTimes s) = []"
    and "isRaceStarted s" "\<not> isRaceFinished s"
    and "CheckpointSystem_update now dt pos h s = Inr (h', s', evs)"
  shows "checkpoints s' = checkpoints s \<and> currentCheckpoint s' \<le> k \<and> laps s' = 0
       \<and> arrays h' (lapTimes s') = [] \<and> isRaceStarted s' \<and> \<not> isRaceFinished s'
       \<and> filter is_LapCompleted evs = []"
proof (cases "array_get (checkpoints s) (currentCheckpoint s)")
  case None
  with assms show ?thesis by (auto simp: CheckpointSystem_update_def Let_def)
next
  case (Some cp)
  show ?thesis
  proof (cases "isVehicleAtCheckpoint pos cp")
    case False
    with Some assms show ?thesis by (auto simp: CheckpointSystem_update_def Let_def)
  next
    case True
    with Some assms have "currentCheckpoint s \<noteq> k" by auto
    with assms have lt: "currentCheckpoint s < k" by simp
    from assms(1) have "k < length (checkpoints s)"
      by (simp add: array_get_def split: if_splits)
    with lt have "(currentCheckpoint s + 1) mod length (checkpoints s) = currentCheckpoint s + 1"
      by simp
    with True Some assms lt show ?thesis
      by (auto simp: CheckpointSystem_update_def checkpointPassed_def Let_def split: if_splits)
  qed
qed


lemma updates_before_sf:
  assumes "array_get (checkpoints s) k = Some sf"
    and "\<forall>(now, dt, pos) \<in> set inputs. \<not> isVehicleAtCheckpoint pos sf"
    and "currentCheckpoint s \<le> k" "laps s = 0" "arrays h (lapTimes s) = []"
    and "isRaceStarted s" "\<not> isRaceFinished s"
    and "updates inputs h s = Inr (h', s', evs)"
  shows "checkpoints s' = checkpoints s \<and> currentCheckpoint s' \<le> k \<and> laps s' = 0
       \<and> arrays h' (lapTimes s') = [] \<and> isRaceStarted s' \<and> \<not> isRaceFinished s'
       \<and> filter is_LapCompleted evs = []"
  using assms
proof (induction inputs arbitrary: h s evs h' s')
  case Nil
  then show ?case by simp
next
  case (Cons inp inputs)
  obtain now dt pos where inp: "inp = (now, dt, pos)" by (cases inp) auto
  from Cons.prems(8) inp obtain ha sa evsa hb sb evsb where
    step: "CheckpointSystem_update now dt pos h s = Inr (ha, sa, evsa)"
    and rest: "updates inputs ha sa = Inr (hb, sb, evsb)"
    and res: "h' = hb" "s' = sb" "evs = evsa @ evsb"
    by (auto split: sum.splits prod.splits)
  from Cons.prems(2) inp have far: "\<not> isVehicleAtCheckpoint pos sf"
    and fars: "\<forall>(now, dt, pos) \<in> set inputs. \<not> isVehicleAtCheckpoint pos sf" by auto
  from update_before_sf [OF Cons.prems(1) far Cons.prems(3-7) step]
  have a: "checkpoints sa = checkpoints s" "currentCheckpoint sa \<le> k" "laps sa = 0"
    "arrays ha (lapTimes sa) = []" "isRaceStarted sa" "\<not> isRaceFinished sa"
    "filter is_LapCompleted evsa = []" by auto
  from Cons.prems(1) a(1) have sfa: "array_get (checkpoints sa) k = Some sf" by simp
  from Cons.IH [OF sfa fars a(2-6) rest] a res show ?case by simp
qed

lemma startRace_state:
  assumes "startRace t0 h s = (h0, s0)"
  shows "checkpoints s0 = checkpoints s \<and> currentCheckpoint s0 = 0 \<and> laps s0 = 0
       \<and> arrays h0 (lapTimes s0) = [] \<and> isRaceStarted s0 \<and> \<not> isRaceFinished s0
       \<and> onCheckpointPassed s0 = onCheckpointPassed s"
  using assms by (auto simp: startRace_def reset_def new_array_def Let_def)

text \<open>
  C7, as amended.  Let the start/finish checkpoint \<open>sf\<close> sit at index \<open>k\<close>.  After
  \<open>startRace\<close>, whatever updates come while the vehicle stays away from \<open>sf\<close>, the
  first update that finds the vehicle at \<open>sf\<close> with \<open>sf\<close> the current checkpoint
  records no lap time and fires no lap-completed callback (none has fired before
  either).  The lap counter stays 0 exactly when \<open>sf\<close> is not the last entry of the
  list; when it is the last entry (in particular the only one) the wrap to index 0
  makes it 1.
\<close>

theorem first_crossing_no_lap:
  assumes sf: "array_get (checkpoints s) k = Some sf" "cp_isStartFinish sf"
    and start: "startRace t0 h s = (h0, s0)"
    and prefix: "\<forall>(now, dt, pos) \<in> set inputs. \<not> isVehicleAtCheckpoint pos sf"
    and run: "updates inputs h0 s0 = Inr (h1, s1, evs1)"
    and at: "currentCheckpoint s1 = k" "isVehicleAtCheckpoint pos sf"
  shows "\<exists>h2 s2 evs2. CheckpointSystem_update now dt pos h1 s1 = Inr (h2, s2, evs2)
        \<and> arrays h2 (lapTimes s2) = []
        \<and> filter is_LapCompleted (evs1 @ evs2) = []
        \<and> currentCheckpoint s2 = Suc k mod length (checkpoints s)
        \<and> laps s2 = (if Suc k = length (checkpoints s) then 1 else 0)"
proof -
  note s0 = startRace_state [OF start]
  from sf(1) s0 have sf0: "array_get (checkpoints s0) k = Some sf" by simp
  from s0 have "currentCheckpoint s0 \<le> k" by simp
  from updates_before_sf [OF sf0 prefix this _ _ _ _ run] s0
  have s1: "checkpoints s1 = checkpoints s" "laps s1 = 0" "arrays h1 (lapTimes s1) = []"
    "isRaceStarted s1" "\<not> isRaceFinished s1" "filter is_LapCompleted evs1 = []" by auto
  from sf(1) have k: "k < length (checkpoints s)"
    by (simp add: array_get_def split: if_splits)
  then have "Suc k mod length (checkpoints s) = 0 \<longleftrightarrow> Suc k = length (checkpoints s)"
    by (metis Suc_lessI mod_less mod_self nat.simps(3))
  with s1 sf at k show ?thesis
    by (auto simp: CheckpointSystem_update_def checkpointPassed_def raceFinished_def Let_def)
qed

theorem first_crossing_no_lap_witness:
  "\<exists>h s h0 s0 h1 s1 evs1 h2 s2 evs2.
     init (Some track4) (all_callbacks 2) empty_heap (snd (CheckpointSystem_new empty_heap)) = Inr (h, s)
     \<and> array_get (checkpoints s) 0 = Some \<lparr>cp_position = Vector3 0 0 0, cp_isStartFinish = True\<rparr>
     \<and> startRace 0 h s = (h0, s0)
     \<and> updates [(1000, 1, Vector3 50 0 0)] h0 s0 = Inr (h1, s1, evs1)
     \<and> currentCheckpoint s1 = 0
     \<and> CheckpointSystem_update 2000 1 (Vector3 3 0 4) h1 s1 = Inr (h2, s2, evs2)
     \<and> arrays h2 (lapTimes s2) = [] \<and> filter is_LapCompleted (evs1 @ evs2) = []
     \<and> currentCheckpoint s2 = 1 \<and> laps s2 = 0"
proof -
  let ?sf = "\<lparr>cp_position = Vector3 0 0 0, cp_isStartFinish = True\<rparr>"
  obtain h s where i: "init (Some track4) (all_callbacks 2) empty_heap (snd (CheckpointSystem_new empty_heap)) = Inr (h, s)"
    by (simp add: scenario_defs)
  then have cps: "checkpoints s = track4"
    by (auto simp: init_def reset_def new_array_def Let_def split: sum.splits)
  then have sf: "array_get (checkpoints s) 0 = Some ?sf" "cp_isStartFinish ?sf"
    by (simp_all add: track4_def array_get_def)
  obtain h0 s0 where st: "startRace 0 h s = (h0, s0)" by (cases "startRace 0 h s")
  have far: "\<forall>(now, dt, pos) \<in> set [(1000::real, 1::real, Vector3 50 0 0)]. \<not> isVehicleAtCheckpoint pos ?sf"
    by (simp add: isVehicleAtCheckpoint_iff distanceToSquared_def lengthSq_def v_sub_def)
  obtain h1 s1 evs1 where run: "updates [(1000, 1, Vector3 50 0 0)] h0 s0 = Inr (h1, s1, evs1)"
    using update_never_raises [of 1000 1 "Vector3 50 0 0" h0 s0] by auto
  have cc: "currentCheckpoint s1 = 0"
    using run st cps far
    by (auto simp: startRace_def reset_def new_array_def Let_def CheckpointSystem_update_def
        array_get_def track4_def split: if_splits)
  have near: "isVehicleAtCheckpoint (Vector3 3 0 4) ?sf"
    by (simp add: isVehicleAtCheckpoint_iff distanceToSquared_def lengthSq_def v_sub_def)
  from first_crossing_no_lap [OF sf st far run cc near, of 2000 1] i sf st run cc cps
  show ?thesis by (simp add: track4_def)
qed

text \<open>
  C7 as stated fails on a track with a single checkpoint: the first crossing of the
  start/finish line raises the lap counter from 0 to 1.
\<close>

theorem first_crossing_single_checkpoint_counterexample:
  "\<exists>h0 s0 h s evs. race_start track1 3 = Inr (h0, s0) \<and> laps s0 = 0
     \<and> isVehicleAtCheckpoint (near track1 0) \<lparr>cp_position = Vector3 0 0 0, cp_isStartFinish = True\<rparr>
     \<and> CheckpointSystem_update 1000 1 (near track1 0) h0 s0 = Inr (h, s, evs)
     \<and> laps s = 1"
  by (simp add: scenario_defs track1_def)

subsection \<open>The two-lap scenario\<close>

text \<open>
  C1.  Four checkpoints, index 0 the start/finish line, \<open>totalLaps = 2\<close>, positions
  near checkpoints 0,1,2,3,0,1,2,3,0.  The race is already finished after the eighth
  update, the ninth and tenth updates change nothing and fire nothing, and
  \<open>lapTimes\<close> ends with one entry, not two: the second lap's time is never pushed,
  because the finish is declared on the wrap to index 0 and the start/finish line is
  never evaluated again.
\<close>

theorem scenario_final_lap_not_recorded:
  "\<exists>h8 s8 evs8 h9 s9 evs9.
     scenario_run 8 = Inr (h8, s8, evs8) \<and> isRaceFinished s8
     \<and> scenario_run 9 = Inr (h9, s9, evs9) \<and> isRaceFinished s9 \<and> laps s9 = 2
     \<and> length (arrays h9 (lapTimes s9)) = 1
     \<and> length (filter is_LapCompleted evs9) = 1
     \<and> length (filter is_RaceFinished evs9) = 1
     \<and> bestLapTime s9 = Some 5
     \<and> scenario_run 9 = scenario_run 8 \<and> scenario_run 10 = scenario_run 9"
  by (simp add: scenario_defs upt_rec)

subsection \<open>A full race on any well-formed track\<close>

text \<open>
  On every well-formed track and for every positive lap count, driving through all
  checkpoints \<open>totalLaps\<close> times finishes the race with \<open>totalLaps - 1\<close> recorded lap
  times (lemma \<open>full_race_lap_times\<close>).
\<close>

lemma at_own_position: "isVehicleAtCheckpoint (cp_position cp) cp"
  by (simp add: isVehicleAtCheckpoint_iff distanceToSquared_def lengthSq_def v_sub_def)

lemma laps_arith:
  fixes k n :: nat
  assumes "0 < n"
  shows "(k mod n + 1) mod n = Suc k mod n"
    and "(Suc k mod n = 0 \<longrightarrow> Suc (k div n) = Suc k div n)
         \<and> (Suc k mod n \<noteq> 0 \<longrightarrow> k div n = Suc k div n)"
    and "(k mod n = 0 \<and> 0 < k div n \<longrightarrow> Suc ((k - 1) div n) = k div n)
         \<and> (\<not> (k mod n = 0 \<and> 0 < k div n) \<longrightarrow> (k - 1) div n = k div n)"
proof -
  show "(k mod n + 1) mod n = Suc k mod n" by (simp add: mod_Suc_eq)
  show "(Suc k mod n = 0 \<longrightarrow> Suc (k div n) = Suc k div n)
         \<and> (Suc k mod n \<noteq> 0 \<longrightarrow> k div n = Suc k div n)"
    by (simp add: div_Suc)
  show "(k mod n = 0 \<and> 0 < k div n \<longrightarrow> Suc ((k - 1) div n) = k div n)
         \<and> (\<not> (k mod n = 0 \<and> 0 < k div n) \<longrightarrow> (k - 1) div n = k div n)"
  proof (cases k)
    case 0
    then show ?thesis by simp
  next
    case (Suc j)
    have "Suc j mod n = 0 \<Longrightarrow> 0 < Suc j div n"
      using assms by (metis Suc_neq_Zero div_greater_zero_iff mod_less neq0_conv not_less)
    then show ?thesis unfolding Suc by (auto simp: div_Suc)
  qed
qed

lemma finish_arith:
  fixes k n l :: nat
  assumes "0 < n" "k < n * l"
  shows "(Suc k mod n = 0 \<and> l \<le> Suc k div n) \<longleftrightarrow> Suc k = n * l"
proof
  assume a: "Suc k mod n = 0 \<and> l \<le> Suc k div n"
  then have "l * n \<le> Suc k" using assms(1) by (simp add: less_eq_div_iff_mult_less_eq)
  with assms(2) show "Suc k = n * l" by (simp add: mult.commute)
next
  assume "Suc k = n * l"
  with assms(1) show "Suc k mod n = 0 \<and> l \<le> Suc k div n" by simp
qed

lemma checkpointPassed_result:
  assumes "array_get (checkpoints s) (currentCheckpoint s) = Some cp"
  shows "\<exists>evs. checkpointPassed h s =
           Inr (if cp_isStartFinish cp \<and> laps s > 0
                then array_push (lapTimes s) (currentLapTime s) h else h,
                after_pass cp s, evs)"
proof -
  define lap where "lap = (cp_isStartFinish cp \<and> laps s > 0)"
  define wrap where "wrap = ((currentCheckpoint s + 1) mod length (checkpoints s) = 0)"
  define fin where "fin = (totalLaps s \<le> laps s + 1)"
  show ?thesis
    unfolding lap_def [symmetric]
    by (cases lap; cases wrap; cases fin)
       (simp_all add: checkpointPassed_def assms lapCompleted_def raceFinished_def after_pass_def
          Let_def lap_def [symmetric] wrap_def [symmetric] fin_def [symmetric])
qed


lemma after_pass_fields:
  "checkpoints (after_pass cp s) = checkpoints s"
  "totalLaps (after_pass cp s) = totalLaps s"
  "isRaceStarted (after_pass cp s) = isRaceStarted s"
  "lapTimes (after_pass cp s) = lapTimes s"
  "currentCheckpoint (after_pass cp s) = (currentCheckpoint s + 1) mod length (checkpoints s)"
  "laps (after_pass cp s) = (if (currentCheckpoint s + 1) mod length (checkpoints s) = 0
                             then laps s + 1 else laps s)"
  "isRaceFinished (after_pass cp s) \<longleftrightarrow> isRaceFinished s
     \<or> ((currentCheckpoint s + 1) mod length (checkpoints s) = 0 \<and> totalLaps s \<le> laps s + 1)"
  by (simp_all add: after_pass_def Let_def)

lemma start_finish_at:
  assumes sff: "start_finish_first (checkpoints s)"
    and cp: "array_get (checkpoints s) (currentCheckpoint s) = Some cp"
    and cc: "currentCheckpoint s = k mod length (checkpoints s)"
  shows "cp_isStartFinish cp \<longleftrightarrow> k mod length (checkpoints s) = 0"
proof -
  let ?n = "length (checkpoints s)"
  from sff have n: "0 < ?n"
    and all: "\<forall>i < ?n. \<exists>cp. checkpoints s ! i = Some cp \<and> (cp_isStartFinish cp \<longleftrightarrow> i = 0)"
    by (simp_all add: start_finish_first_def)
  from n have lt_n: "k mod ?n < ?n" by simp
  from cp cc lt_n have "checkpoints s ! (k mod ?n) = Some cp"
    by (simp add: array_get_def)
  with all [rule_format, OF lt_n] show ?thesis by auto
qed

lemma hit_step:
  assumes sff: "start_finish_first (checkpoints s)"
    and p: "progress k h s" and k: "k < length (checkpoints s) * totalLaps s"
    and cp: "array_get (checkpoints s) (currentCheckpoint s) = Some cp"
    and upd: "CheckpointSystem_update now dt (cp_position cp) h s = Inr (h', s', evs)"
  shows "checkpoints s' = checkpoints s \<and> totalLaps s' = totalLaps s \<and> progress (Suc k) h' s'"
proof -
  let ?n = "length (checkpoints s)"
  from sff have n: "0 < ?n" by (simp add: start_finish_first_def)
  from p k have st: "isRaceStarted s" "\<not> isRaceFinished s"
    and cc: "currentCheckpoint s = k mod ?n" and l: "laps s = k div ?n"
    and lt: "length (arrays h (lapTimes s)) = (k - 1) div ?n"
    by (simp_all add: progress_def)
  from start_finish_at [OF sff cp cc]
  have sf: "cp_isStartFinish cp \<longleftrightarrow> k mod ?n = 0" .
  define s1 where "s1 = s\<lparr>raceTime := (now - raceStartTime s) / 1000,
                           currentLapTime := currentLapTime s + dt\<rparr>"
  have s1: "checkpoints s1 = checkpoints s" "currentCheckpoint s1 = k mod ?n"
    "laps s1 = k div ?n" "totalLaps s1 = totalLaps s" "lapTimes s1 = lapTimes s"
    "isRaceStarted s1" "\<not> isRaceFinished s1"
    by (simp_all add: s1_def cc l st)
  from upd st cp have cpd: "checkpointPassed h s1 = Inr (h', s', evs)"
    by (simp add: CheckpointSystem_update_def Let_def s1_def at_own_position)
  have cp1: "array_get (checkpoints s1) (currentCheckpoint s1) = Some cp"
    using cp by (simp add: s1 cc)
  from checkpointPassed_result [OF cp1, of h] obtain evs0 where
    "checkpointPassed h s1 = Inr (if cp_isStartFinish cp \<and> laps s1 > 0
                then array_push (lapTimes s1) (currentLapTime s1) h else h,
                after_pass cp s1, evs0)" by auto
  with cpd have "h' = (if cp_isStartFinish cp \<and> laps s1 > 0
                then array_push (lapTimes s1) (currentLapTime s1) h else h)"
    and s': "s' = after_pass cp s1"
    by simp_all
  then have h': "h' = (if k mod ?n = 0 \<and> 0 < k div ?n
                  then array_push (lapTimes s) (currentLapTime s1) h else h)"
    by (simp add: sf s1)
  have c': "currentCheckpoint s' = Suc k mod ?n"
    unfolding s' after_pass_fields s1 using laps_arith(1) [OF n, of k] by simp
  have l': "laps s' = Suc k div ?n"
    unfolding s' after_pass_fields s1 using laps_arith(1,2) [OF n, of k] by simp
  have t': "length (arrays h' (lapTimes s')) = (Suc k - 1) div ?n"
    unfolding s' after_pass_fields s1 h' using laps_arith(3) [OF n, of k] lt
    by (simp add: array_push_def)
  have w: "(k mod ?n + 1) mod ?n = 0 \<longleftrightarrow> Suc k mod ?n = 0"
    using laps_arith(1) [OF n, of k] by simp
  have d: "totalLaps s \<le> k div ?n + 1 \<longleftrightarrow> totalLaps s \<le> Suc k div ?n"
    if "Suc k mod ?n = 0"
    using laps_arith(2) [OF n, of k] that by simp
  have f': "isRaceFinished s' \<longleftrightarrow> Suc k = ?n * totalLaps s"
    unfolding s' after_pass_fields s1 w
    using d finish_arith [OF n k] s1(7) by auto
  have "checkpoints s' = checkpoints s" "totalLaps s' = totalLaps s" "isRaceStarted s'"
    unfolding s' after_pass_fields using s1 by simp_all
  with c' l' t' f' show ?thesis by (simp add: progress_def)
qed

lemma drive_progress:
  assumes "start_finish_first (checkpoints s)" "progress k h s"
    and "k + m \<le> length (checkpoints s) * totalLaps s"
  shows "\<exists>h' s' evs. drive m now dt h s = Inr (h', s', evs)
           \<and> checkpoints s' = checkpoints s \<and> totalLaps s' = totalLaps s
           \<and> progress (k + m) h' s'"
  using assms
proof (induction m arbitrary: k h s)
  case 0
  then show ?case by simp
next
  case (Suc m)
  let ?n = "length (checkpoints s)"
  from Suc.prems(1) have n: "0 < ?n" by (simp add: start_finish_first_def)
  from Suc.prems(3) have k: "k < ?n * totalLaps s" by simp
  from Suc.prems(2) have cc: "currentCheckpoint s = k mod ?n" by (simp add: progress_def)
  with n have "currentCheckpoint s < ?n" by simp
  with Suc.prems(1) obtain cp where cp: "array_get (checkpoints s) (currentCheckpoint s) = Some cp"
    unfolding start_finish_first_def array_get_def by auto
  obtain h1 s1 evs1 where
    u: "CheckpointSystem_update now dt (cp_position cp) h s = Inr (h1, s1, evs1)"
    using update_never_raises [of now dt "cp_position cp" h s] by auto
  from hit_step [OF Suc.prems(1,2) k cp u]
  have a: "checkpoints s1 = checkpoints s" "totalLaps s1 = totalLaps s" "progress (Suc k) h1 s1"
    by simp_all
  from Suc.prems(1,3) a have b: "start_finish_first (checkpoints s1)"
    "Suc k + m \<le> length (checkpoints s1) * totalLaps s1" by simp_all
  from Suc.IH [OF b(1) a(3) b(2)] obtain h' s' evs where
    r: "drive m now dt h1 s1 = Inr (h', s', evs)" "checkpoints s' = checkpoints s1"
    "totalLaps s' = totalLaps s1" "progress (Suc k + m) h' s'"
    by auto
  have "drive (Suc m) now dt h s = Inr (h', s', evs1 @ evs)"
    by (simp add: cp u r(1))
  with r a show ?case by simp
qed

lemma last_lap_arith:
  fixes n l :: nat
  assumes "0 < n" "0 < l"
  shows "(n * l - Suc 0) div n = l - Suc 0"
proof -
  from assms obtain m l' where n: "n = Suc m" and l: "l = Suc l'"
    by (cases n; cases l) auto
  have eq: "Suc m * Suc l' - Suc 0 = m + l' * Suc m" by simp
  have "(Suc m * Suc l' - Suc 0) div Suc m = (m + l' * Suc m) div Suc m"
    by (simp only: eq)
  also have "\<dots> = l' + m div Suc m" by (rule div_mult_self1) simp
  also have "\<dots> = l'" by simp
  finally have e: "(Suc m * Suc l' - Suc 0) div Suc m = l'" .
  show ?thesis unfolding n l e by simp
qed

lemma full_race_lap_times:
  assumes sff: "start_finish_first (checkpoints s)" and l: "0 < totalLaps s"
    and st: "startRace t0 h s = (h0, s0)"
  shows "\<exists>h' s' evs. drive (length (checkpoints s) * totalLaps s) now dt h0 s0 = Inr (h', s', evs)
           \<and> isRaceFinished s' \<and> laps s' = totalLaps s
           \<and> length (arrays h' (lapTimes s')) = totalLaps s - 1"
proof -
  let ?n = "length (checkpoints s)"
  from sff have n: "0 < ?n" by (simp add: start_finish_first_def)
  from st have s0: "checkpoints s0 = checkpoints s" "totalLaps s0 = totalLaps s"
    "currentCheckpoint s0 = 0" "laps s0 = 0" "arrays h0 (lapTimes s0) = []"
    "isRaceStarted s0" "\<not> isRaceFinished s0"
    by (auto simp: startRace_def reset_def new_array_def Let_def)
  from n l have "?n * totalLaps s \<noteq> 0" by simp
  with s0 have p: "progress 0 h0 s0" by (simp add: progress_def)
  from sff s0 have sff0: "start_finish_first (checkpoints s0)" by simp
  have b: "0 + ?n * totalLaps s \<le> length (checkpoints s0) * totalLaps s0" by (simp add: s0)
  from drive_progress [OF sff0 p b, of now dt] obtain h' s' evs where
    r: "drive (?n * totalLaps s) now dt h0 s0 = Inr (h', s', evs)"
    "checkpoints s' = checkpoints s0" "totalLaps s' = totalLaps s0"
    "progress (?n * totalLaps s) h' s'"
    by auto
  from r(4) have "isRaceFinished s'" "laps s' = totalLaps s"
    "length (arrays h' (lapTimes s')) = totalLaps s - 1"
    using n by (simp_all add: progress_def r(2,3) s0 last_lap_arith [OF n l])
  with r(1) show ?thesis by simp
qed

subsection \<open>Snapshots share the lap-time array\<close>

text \<open>
  C2.  Two calls of \<open>getRaceState\<close> with nothing in between return equal snapshots,
  but the snapshot's \<open>lapTimes\<close> is the system's own array: a \<open>push\<close> through one
  snapshot is seen by the system and by every other snapshot.
\<close>

theorem getRaceState_shares_lapTimes:
  "getRaceState s = getRaceState s
   \<and> rs_lapTimes (getRaceState s) = lapTimes s
   \<and> arrays (array_push (rs_lapTimes (getRaceState s)) v h) (lapTimes s)
       = arrays h (lapTimes s) @ [v]
   \<and> arrays (array_push (rs_lapTimes (getRaceState s)) v h) (lapTimes s)
       \<noteq> arrays h (lapTimes s)"
  by (simp add: getRaceState_def array_push_def)

section \<open>Properties of the collision system\<close>

lemma update_two_dynamic:
  assumes "length (colliders cs) = 2" "staticColliders cs = []"
  shows "CollisionSystem_update dt cs =
           check_dynamic 0 1 (cs\<lparr>colliders := map updateCollider (colliders cs)\<rparr>, [])"
proof -
  have l: "[0 ..< 2] = [0, Suc 0]" "[Suc 0 ..< 2] = [Suc 0]" "[Suc (Suc 0) ..< 2] = []"
    by (simp_all add: upt_rec)
  show ?thesis
    using assms by (simp add: CollisionSystem_update_def Let_def l split: sum.splits)
qed

lemma response_dynamic:
  assumes "obj_physics a = Some \<lparr>ph_velocity = Some v1, ph_mass = Some m1\<rparr>"
    and "obj_physics b = Some \<lparr>ph_velocity = Some v2, ph_mass = Some m2\<rparr>"
    and "m1 \<noteq> 0" "m2 \<noteq> 0"
  shows "defaultCollisionResponse a b p n =
     Inr (set_velocity (multiplyScalar (v_sub v1 (multiplyScalar n
                          (2 * m2 / (m1 + m2) * dot (v_sub v1 v2) n))) 0.8) a,
          set_velocity (multiplyScalar (v_sub v2 (multiplyScalar n
                          (2 * m1 / (m1 + m2) * dot (v_sub v2 v1) n))) 0.8) b)"
  using assms by (simp add: defaultCollisionResponse_def self_mass_def other_mass_def Let_def)

lemma response_momentum_aux:
  fixes m1 m2 q1 q2 c el :: real
  assumes k: "q1 * m1 = q2 * m2"
  shows "v_add (multiplyScalar (multiplyScalar (v_sub v1 (multiplyScalar n (q1 * c))) el) m1)
               (multiplyScalar (multiplyScalar (v_sub v2 (multiplyScalar n (q2 * (- c)))) el) m2)
         = multiplyScalar (v_add (multiplyScalar v1 m1) (multiplyScalar v2 m2)) el"
proof -
  have g: "(x - nx * (q1 * c)) * el * m1 + (y - nx * (q2 * (- c))) * el * m2
         = (x * m1 + y * m2) * el" for x y nx :: real
  proof -
    have "(x - nx * (q1 * c)) * el * m1 + (y - nx * (q2 * (- c))) * el * m2
        = (x * m1 + y * m2) * el - nx * c * el * (q1 * m1) + nx * c * el * (q2 * m2)"
      by (simp add: algebra_simps)
    also have "\<dots> = (x * m1 + y * m2) * el" by (simp add: k)
    finally show ?thesis .
  qed
  show ?thesis
    by (simp only: v_add_def multiplyScalar_def v_sub_def vector3.sel vector3.inject g simp_thms)
qed

lemma response_momentum:
  fixes m1 m2 :: real
  shows "v_add (multiplyScalar (multiplyScalar (v_sub v1 (multiplyScalar n
                  (2 * m2 / (m1 + m2) * dot (v_sub v1 v2) n))) 0.8) m1)
               (multiplyScalar (multiplyScalar (v_sub v2 (multiplyScalar n
                  (2 * m1 / (m1 + m2) * dot (v_sub v2 v1) n))) 0.8) m2)
         = multiplyScalar (v_add (multiplyScalar v1 m1) (multiplyScalar v2 m2)) 0.8"
proof -
  have d: "dot (v_sub v2 v1) n = - dot (v_sub v1 v2) n"
    by (simp add: dot_def v_sub_def algebra_simps)
  have k: "2 * m2 / (m1 + m2) * m1 = 2 * m1 / (m1 + m2) * m2" by simp
  show ?thesis
    unfolding d by (rule response_momentum_aux [OF k])
qed


lemma v_add_commute: "v_add a b = v_add b a"
  by (simp add: v_add_def)

lemma v_add_zero: "v_add a v_zero = a"
  by (simp add: v_add_def v_zero_def)

lemma multiplyScalar_twice: "multiplyScalar (multiplyScalar a s) t = multiplyScalar a (s * t)"
  by (simp add: multiplyScalar_def)

lemma set_velocity_sel:
  "obj_collider (set_velocity v obj) = obj_collider obj"
  "obj_physics obj = Some \<lparr>ph_velocity = w, ph_mass = m\<rparr>
     \<Longrightarrow> obj_physics (set_velocity v obj) = Some \<lparr>ph_velocity = Some v, ph_mass = m\<rparr>"
  by (simp_all add: set_velocity_def)

lemma updateCollider_sel:
  "obj_physics (updateCollider obj) = obj_physics obj"
  "onCollision (obj_collider (updateCollider obj)) = onCollision (obj_collider obj)"
  "boundingBox (obj_collider (updateCollider obj)) = obj_bounds obj"
  "boundingSphere (obj_collider (updateCollider obj)) = getBoundingSphere (obj_bounds obj)"
  by (simp_all add: updateCollider_def)

lemma two_default_bodies:
  assumes cs: "colliders cs = [a, b]" "staticColliders cs = []"
    and cb: "onCollision (obj_collider a) = Some DefaultCollisionResponse"
            "onCollision (obj_collider b) = Some DefaultCollisionResponse"
    and ph: "obj_physics a = Some \<lparr>ph_velocity = Some va, ph_mass = Some ma\<rparr>"
            "obj_physics b = Some \<lparr>ph_velocity = Some vb, ph_mass = Some mb\<rparr>"
    and m: "ma > 0" "mb > 0"
    and hit: "intersectsSphere (getBoundingSphere (obj_bounds a)) (getBoundingSphere (obj_bounds b))"
             "intersectsBox (obj_bounds a) (obj_bounds b)"
    and n: "n = normalize (v_sub (center (getBoundingSphere (obj_bounds b)))
                                 (center (getBoundingSphere (obj_bounds a))))"
  shows "\<exists>cs'. CollisionSystem_update dt cs =
            Inr (cs', [\<lparr>inv_self = Dynamic 0, inv_other = Dynamic 1, inv_point = v_zero, inv_normal = n\<rparr>,
                       \<lparr>inv_self = Dynamic 1, inv_other = Dynamic 0, inv_point = v_zero,
                        inv_normal = negate n\<rparr>])
          \<and> total_momentum cs' = multiplyScalar (total_momentum cs) (0.8 * 0.8)"
proof -
  define a0 where "a0 = updateCollider a"
  define b0 where "b0 = updateCollider b"
  define va1 where "va1 = multiplyScalar (v_sub va (multiplyScalar n
                            (2 * mb / (ma + mb) * dot (v_sub va vb) n))) 0.8"
  define vb1 where "vb1 = multiplyScalar (v_sub vb (multiplyScalar n
                            (2 * ma / (ma + mb) * dot (v_sub vb va) n))) 0.8"
  define vb2 where "vb2 = multiplyScalar (v_sub vb1 (multiplyScalar (negate n)
                            (2 * ma / (mb + ma) * dot (v_sub vb1 va1) (negate n)))) 0.8"
  define va2 where "va2 = multiplyScalar (v_sub va1 (multiplyScalar (negate n)
                            (2 * mb / (mb + ma) * dot (v_sub va1 vb1) (negate n)))) 0.8"
  define a1 where "a1 = set_velocity va1 a0"
  define b1 where "b1 = set_velocity vb1 b0"
  define a2 where "a2 = set_velocity va2 a1"
  define b2 where "b2 = set_velocity vb2 b1"
  define call1 where "call1 = \<lparr>inv_self = Dynamic 0, inv_other = Dynamic 1, inv_point = v_zero, inv_normal = n\<rparr>"
  define call2 where "call2 = \<lparr>inv_self = Dynamic 1, inv_other = Dynamic 0, inv_point = v_zero, inv_normal = negate n\<rparr>"
  from m have m0: "ma \<noteq> 0" "mb \<noteq> 0" by simp_all
  have pa0: "obj_physics a0 = Some \<lparr>ph_velocity = Some va, ph_mass = Some ma\<rparr>"
    and pb0: "obj_physics b0 = Some \<lparr>ph_velocity = Some vb, ph_mass = Some mb\<rparr>"
    and ca0: "onCollision (obj_collider a0) = Some DefaultCollisionResponse"
    and cb0: "onCollision (obj_collider b0) = Some DefaultCollisionResponse"
    by (simp_all add: a0_def b0_def updateCollider_sel ph cb)
  have pa1: "obj_physics a1 = Some \<lparr>ph_velocity = Some va1, ph_mass = Some ma\<rparr>"
    and pb1: "obj_physics b1 = Some \<lparr>ph_velocity = Some vb1, ph_mass = Some mb\<rparr>"
    and cb1: "onCollision (obj_collider b1) = Some DefaultCollisionResponse"
    by (simp_all add: a1_def b1_def set_velocity_sel(1) set_velocity_sel(2) [OF pa0]
        set_velocity_sel(2) [OF pb0] cb0)
  have pa2: "obj_physics a2 = Some \<lparr>ph_velocity = Some va2, ph_mass = Some ma\<rparr>"
    and pb2: "obj_physics b2 = Some \<lparr>ph_velocity = Some vb2, ph_mass = Some mb\<rparr>"
    by (simp_all add: a2_def b2_def set_velocity_sel(2) [OF pa1] set_velocity_sel(2) [OF pb1])
  have r1: "defaultCollisionResponse a0 b0 v_zero n = Inr (a1, b1)"
    unfolding a1_def b1_def va1_def vb1_def by (rule response_dynamic [OF pa0 pb0 m0])
  have r2: "defaultCollisionResponse b1 a1 v_zero (negate n) = Inr (b2, a2)"
    unfolding a2_def b2_def va2_def vb2_def by (rule response_dynamic [OF pb1 pa1 m0(2) m0(1)])
  have start: "cs\<lparr>colliders := map updateCollider (colliders cs)\<rparr>
                 = \<lparr>colliders = [a0, b0], staticColliders = []\<rparr>"
    using cs by (simp add: a0_def b0_def)
  have i1: "invoke (Dynamic 0) (Dynamic (Suc 0)) v_zero n (\<lparr>colliders = [a0, b0], staticColliders = []\<rparr>, [])
              = Inr (\<lparr>colliders = [a1, b1], staticColliders = []\<rparr>, [call1])"
    by (simp add: invoke_def ca0 r1 call1_def)
  have i2: "invoke (Dynamic (Suc 0)) (Dynamic 0) v_zero (negate n)
                (\<lparr>colliders = [a1, b1], staticColliders = []\<rparr>, [call1])
              = Inr (\<lparr>colliders = [a2, b2], staticColliders = []\<rparr>, [call1, call2])"
    by (simp add: invoke_def cb1 r2 call2_def)
  have hit0: "intersectsSphere (boundingSphere (obj_collider a0)) (boundingSphere (obj_collider b0))"
    "intersectsBox (boundingBox (obj_collider a0)) (boundingBox (obj_collider b0))"
    "normalize (v_sub (center (boundingSphere (obj_collider b0)))
                      (center (boundingSphere (obj_collider a0)))) = n"
    by (simp_all add: a0_def b0_def updateCollider_sel hit n)
  have "length (colliders cs) = 2" using cs by simp
  from update_two_dynamic [OF this cs(2)]
  have u: "CollisionSystem_update dt cs = Inr (\<lparr>colliders = [a2, b2], staticColliders = []\<rparr>, [call1, call2])"
    by (simp add: start check_dynamic_def hit0 Let_def i1 i2)
  have p0: "total_momentum cs = v_add (multiplyScalar va ma) (multiplyScalar vb mb)"
    using m0 by (simp add: total_momentum_def cs ph self_mass_def v_add_zero)
  have p2: "total_momentum \<lparr>colliders = [a2, b2], staticColliders = []\<rparr>
              = v_add (multiplyScalar va2 ma) (multiplyScalar vb2 mb)"
    using m0 by (simp add: total_momentum_def pa2 pb2 self_mass_def v_add_zero)
  have s1: "v_add (multiplyScalar va1 ma) (multiplyScalar vb1 mb)
              = multiplyScalar (v_add (multiplyScalar va ma) (multiplyScalar vb mb)) 0.8"
    unfolding va1_def vb1_def by (rule response_momentum)
  have s2: "v_add (multiplyScalar vb2 mb) (multiplyScalar va2 ma)
              = multiplyScalar (v_add (multiplyScalar vb1 mb) (multiplyScalar va1 ma)) 0.8"
    unfolding va2_def vb2_def by (rule response_momentum)
  have "total_momentum \<lparr>colliders = [a2, b2], staticColliders = []\<rparr>
          = multiplyScalar (total_momentum cs) (0.8 * 0.8)"
    unfolding p0 p2
    by (simp only: v_add_commute [of "multiplyScalar va2 ma"] s2
        v_add_commute [of "multiplyScalar vb1 mb"] s1 multiplyScalar_twice)
  with u show ?thesis by (simp add: call1_def call2_def)
qed


lemma foldE_invariant:
  assumes "\<And>x s s'. P s \<Longrightarrow> f x s = Inr s' \<Longrightarrow> P s'"
    and "P s" "foldE f xs s = Inr s'"
  shows "P s'"
  using assms(2,3)
proof (induction xs arbitrary: s)
  case Nil
  then show ?case by simp
next
  case (Cons x xs)
  then show ?case by (auto split: sum.splits intro: assms(1))
qed

lemma invoke_points:
  assumes "points_at_origin st" "invoke a b v_zero n st = Inr st'"
  shows "points_at_origin st'"
  using assms
  by (cases st) (auto simp: points_at_origin_def invoke_def Let_def
      split: option.splits callback.splits sum.splits)

lemma check_dynamic_points:
  assumes "points_at_origin st" "check_dynamic i j st = Inr st'"
  shows "points_at_origin st'"
  using assms
  by (auto simp: check_dynamic_def Let_def split: if_splits sum.splits dest: invoke_points)

lemma check_static_points:
  assumes "points_at_origin st" "check_static i k st = Inr st'"
  shows "points_at_origin st'"
  using assms
  by (auto simp: check_static_def Let_def split: if_splits dest: invoke_points)

lemma update_points_at_origin:
  assumes "CollisionSystem_update dt cs = Inr (cs', calls)"
  shows "\<forall>c \<in> set calls. inv_point c = v_zero"
proof -
  let ?cs1 = "cs\<lparr>colliders := map updateCollider (colliders cs)\<rparr>"
  have step: "points_at_origin st'"
    if "points_at_origin st"
      and "(case foldE (check_dynamic i) [Suc i ..< length (colliders ?cs1)] st of
              Inl e \<Rightarrow> Inl e
            | Inr st' \<Rightarrow> foldE (check_static i) [0 ..< length (staticColliders ?cs1)] st') = Inr st'"
    for i st st'
  proof -
    from that(2) obtain st1 where
      1: "foldE (check_dynamic i) [Suc i ..< length (colliders ?cs1)] st = Inr st1"
      and 2: "foldE (check_static i) [0 ..< length (staticColliders ?cs1)] st1 = Inr st'"
      by (auto split: sum.splits)
    have d: "\<And>x s s'. points_at_origin s \<Longrightarrow> check_dynamic i x s = Inr s' \<Longrightarrow> points_at_origin s'"
      by (rule check_dynamic_points)
    have k: "\<And>x s s'. points_at_origin s \<Longrightarrow> check_static i x s = Inr s' \<Longrightarrow> points_at_origin s'"
      by (rule check_static_points)
    have p1: "points_at_origin st1"
      by (rule foldE_invariant [where P = points_at_origin, OF d that(1) 1])
    show ?thesis
      by (rule foldE_invariant [where P = points_at_origin, OF k p1 2])
  qed
  have "points_at_origin (?cs1, [])" by (simp add: points_at_origin_def)
  from foldE_invariant [where P = points_at_origin, OF step this] assms
  have "points_at_origin (cs', calls)"
    by (simp add: CollisionSystem_update_def Let_def)
  then show ?thesis by (simp add: points_at_origin_def)
qed

lemma two_bodies_parts:
  "colliders two_bodies = [bodyA, bodyB]" "staticColliders two_bodies = []"
  by (simp_all add: two_bodies_def registerCollider_def CollisionSystem_new_def body_def
      bodyA_def bodyB_def)

lemma two_bodies_spheres:
  "getBoundingSphere (obj_bounds bodyA) = \<lparr>center = Vector3 1 1 1, radius = sqrt 12 / 2\<rparr>"
  "getBoundingSphere (obj_bounds bodyB) = \<lparr>center = Vector3 2 1 1, radius = sqrt 12 / 2\<rparr>"
  by (simp_all add: bodyA_def bodyB_def body_def getBoundingSphere_def isEmpty_def v_add_def
      v_sub_def multiplyScalar_def v_length_def lengthSq_def)

lemma two_bodies_update:
  "\<exists>cs'. CollisionSystem_update dt two_bodies =
      Inr (cs', [\<lparr>inv_self = Dynamic 0, inv_other = Dynamic 1, inv_point = Vector3 0 0 0,
                  inv_normal = Vector3 1 0 0\<rparr>,
                 \<lparr>inv_self = Dynamic 1, inv_other = Dynamic 0, inv_point = Vector3 0 0 0,
                  inv_normal = Vector3 (- 1) 0 0\<rparr>])
    \<and> total_momentum two_bodies = Vector3 1 0 0
    \<and> total_momentum cs' = Vector3 (16 / 25) 0 0"
proof -
  have p: "total_momentum two_bodies = Vector3 1 0 0"
    by (simp add: total_momentum_def two_bodies_parts bodyA_def bodyB_def body_def self_mass_def
        v_add_def multiplyScalar_def v_zero_def)
  note t = two_default_bodies [where cs = two_bodies and a = bodyA and b = bodyB
      and va = "Vector3 1 0 0" and ma = 1 and vb = "Vector3 0 0 0" and mb = 1
      and n = "Vector3 1 0 0" and dt = dt]
  have "\<exists>cs'. CollisionSystem_update dt two_bodies =
            Inr (cs', [\<lparr>inv_self = Dynamic 0, inv_other = Dynamic 1, inv_point = v_zero,
                        inv_normal = Vector3 1 0 0\<rparr>,
                       \<lparr>inv_self = Dynamic 1, inv_other = Dynamic 0, inv_point = v_zero,
                        inv_normal = negate (Vector3 1 0 0)\<rparr>])
          \<and> total_momentum cs' = multiplyScalar (total_momentum two_bodies) (0.8 * 0.8)"
  proof (rule t)
    show "colliders two_bodies = [bodyA, bodyB]" "staticColliders two_bodies = []"
      by (rule two_bodies_parts)+
    show "onCollision (obj_collider bodyA) = Some DefaultCollisionResponse"
      "onCollision (obj_collider bodyB) = Some DefaultCollisionResponse"
      "obj_physics bodyA = Some \<lparr>ph_velocity = Some (Vector3 1 0 0), ph_mass = Some 1\<rparr>"
      "obj_physics bodyB = Some \<lparr>ph_velocity = Some (Vector3 0 0 0), ph_mass = Some 1\<rparr>"
      by (simp_all add: bodyA_def bodyB_def body_def)
    show "intersectsSphere (getBoundingSphere (obj_bounds bodyA)) (getBoundingSphere (obj_bounds bodyB))"
      by (simp add: two_bodies_spheres intersectsSphere_def distanceToSquared_def lengthSq_def v_sub_def)
    show "intersectsBox (obj_bounds bodyA) (obj_bounds bodyB)"
      by (simp add: bodyA_def bodyB_def body_def intersectsBox_def)
    show "Vector3 1 0 0 = normalize (v_sub (center (getBoundingSphere (obj_bounds bodyB)))
                                 (center (getBoundingSphere (obj_bounds bodyA))))"
      by (simp add: two_bodies_spheres v_sub_def normalize_def v_length_def
        lengthSq_def divideScalar_def multiplyScalar_def)
  qed simp_all
  then show ?thesis
    by (simp add: p v_zero_def negate_def multiplyScalar_def)
qed

text \<open>
  C3.  Two registered boxes in contact, with bounding-sphere centres \<open>(1,1,1)\<close> and
  \<open>(2,1,1)\<close>.  Both callbacks are called with the normalized direction between the
  centres (negated for the second), but the collision point they receive is the
  origin, not the midpoint \<open>(3/2,1,1)\<close> of the centres.
\<close>

theorem two_bodies_collision_point:
  "\<exists>cs' calls. CollisionSystem_update (1 / 60) two_bodies = Inr (cs', calls)
     \<and> map inv_point calls = [Vector3 0 0 0, Vector3 0 0 0]
     \<and> map inv_normal calls = [Vector3 1 0 0, Vector3 (- 1) 0 0]
     \<and> center (getBoundingSphere (obj_bounds (colliders two_bodies ! 0))) = Vector3 1 1 1
     \<and> center (getBoundingSphere (obj_bounds (colliders two_bodies ! 1))) = Vector3 2 1 1
     \<and> multiplyScalar (v_add (center (getBoundingSphere (obj_bounds (colliders two_bodies ! 0))))
                              (center (getBoundingSphere (obj_bounds (colliders two_bodies ! 1)))))
           0.5 = Vector3 (3 / 2) 1 1"
proof -
  from two_bodies_update [of "1 / 60"] obtain cs' calls where
    "CollisionSystem_update (1 / 60) two_bodies = Inr (cs', calls)"
    "map inv_point calls = [Vector3 0 0 0, Vector3 0 0 0]"
    "map inv_normal calls = [Vector3 1 0 0, Vector3 (- 1) 0 0]"
    by auto
  then show ?thesis
    by (simp add: two_bodies_parts two_bodies_spheres v_add_def multiplyScalar_def)
qed

text \<open>
  C4.  The same two bodies, both of mass 1, the first moving at \<open>(1,0,0)\<close> towards the
  second at rest, both with the default response.  The two callbacks receive opposite
  normals, but each call rewrites both velocities, so the response runs twice in one
  pass: the total momentum goes from \<open>(1,0,0)\<close> to \<open>(16/25,0,0)\<close>, which is \<open>0.8 * 0.8\<close>
  of it and not \<open>0.8\<close>.
\<close>

theorem two_bodies_momentum:
  "\<exists>cs' calls. CollisionSystem_update (1 / 60) two_bodies = Inr (cs', calls)
     \<and> map inv_normal calls = [Vector3 1 0 0, negate (Vector3 1 0 0)]
     \<and> total_momentum two_bodies = Vector3 1 0 0
     \<and> total_momentum cs' = Vector3 (16 / 25) 0 0
     \<and> total_momentum cs' \<noteq> multiplyScalar (total_momentum two_bodies) 0.8"
proof -
  from two_bodies_update [of "1 / 60"] obtain cs' calls where
    "CollisionSystem_update (1 / 60) two_bodies = Inr (cs', calls)"
    "map inv_normal calls = [Vector3 1 0 0, Vector3 (- 1) 0 0]"
    "total_momentum two_bodies = Vector3 1 0 0"
    "total_momentum cs' = Vector3 (16 / 25) 0 0"
    by auto
  then show ?thesis
    by (simp add: negate_def multiplyScalar_def)
qed

section \<open>Properties of the vehicle model\<close>

lemma setControls_config: "config (setControls ctl v) = config v"
  by (simp add: setControls_def Let_def)

lemma setControls_pow_config: "config ((setControls ctl ^^ n) v) = config v"
  by (induction n) (simp_all add: setControls_config)

lemma setControls_steering:
  "steering (state (setControls \<lparr>c_throttle = t, c_brake = b, c_steering = Some s\<rparr> v)) =
     (let target = max (- 1) (min 1 s); cur = steering (state v)
      in if cur < target then min target (cur + steeringSpeed (config v) * 0.016)
         else if cur > target then max target (cur - steeringSpeed (config v) * 0.016)
         else cur)"
  by (cases t; cases b) (auto simp: setControls_def Let_def)

lemma steer_full_step:
  "steering (state (setControls steer_full v)) =
     (if steering (state v) < 1 then min 1 (steering (state v) + steeringSpeed (config v) * 0.016)
      else if steering (state v) > 1 then max 1 (steering (state v) - steeringSpeed (config v) * 0.016)
      else steering (state v))"
  by (simp add: steer_full_def setControls_steering Let_def)

lemma steer_full_steps:
  assumes "steeringSpeed c = 2.5"
  shows "n \<le> 25 \<Longrightarrow>
     steering (state ((setControls steer_full ^^ n) (VehiclePhysics_new c))) = real n / 25"
proof (induction n)
  case 0
  then show ?case by (simp add: VehiclePhysics_new_def)
next
  case (Suc n)
  define v where "v = (setControls steer_full ^^ n) (VehiclePhysics_new c)"
  from Suc have ih: "steering (state v) = real n / 25" by (simp add: v_def)
  have c: "steeringSpeed (config v) = 2.5"
    by (simp add: v_def setControls_pow_config VehiclePhysics_new_def assms)
  from Suc.prems have n: "real n < 25" "real n + 1 \<le> 25" by simp_all
  have "steering (state (setControls steer_full v)) = real (Suc n) / 25"
    unfolding steer_full_step ih c using n by (simp add: field_simps)
  then show ?case by (simp add: v_def)
qed

lemma steer_full_bound:
  "steering (state ((setControls steer_full ^^ n) (VehiclePhysics_new default_config))) \<le> 1"
proof (induction n)
  case 0
  then show ?case by (simp add: VehiclePhysics_new_def)
next
  case (Suc n)
  define v where "v = (setControls steer_full ^^ n) (VehiclePhysics_new default_config)"
  from Suc have ih: "steering (state v) \<le> 1" by (simp add: v_def)
  have "steering (state (setControls steer_full v)) \<le> 1"
    unfolding steer_full_step using ih by simp
  then show ?case by (simp add: v_def)
qed

text \<open>
  C5.  With \<open>steeringSpeed = 2.5\<close> and a steering request of 1, each \<open>setControls\<close> call
  adds \<open>2.5 * 0.016 = 0.04\<close>, whatever the real frame time.  The 24 calls of 0.4 s at
  60 Hz leave the steering at \<open>24/25 = 0.96\<close>, not 1; the 25th call reaches 1, and no
  call overshoots.
\<close>

theorem steering_after_24_calls:
  "steering (state ((setControls steer_full ^^ 24) (VehiclePhysics_new default_config))) = 24 / 25
   \<and> steering (state ((setControls steer_full ^^ 24) (VehiclePhysics_new default_config))) \<noteq> 1
   \<and> steering (state ((setControls steer_full ^^ 25) (VehiclePhysics_new default_config))) = 1
   \<and> (\<forall>n. steering (state ((setControls steer_full ^^ n) (VehiclePhysics_new default_config))) \<le> 1)"
proof -
  have "steeringSpeed default_config = 2.5" by (simp add: default_config_def)
  from steer_full_steps [OF this, of 24] steer_full_steps [OF this, of 25] steer_full_bound
  show ?thesis by simp
qed











subsection \<open>Steering stays bounded and returns to centre\<close>



















section \<open>Properties of the game loop\<close>



text \<open>A step that is not positive keeps the loop running once it is entered.\<close>

lemma fixed_updates_Some_step:
  assumes "fixed_updates cbs step acc calls = Some r"
  shows "0 < step \<or> acc < step"
  using assms
proof (induction cbs step acc calls r rule: fixed_updates.raw_induct)
  case (1 f cbs step acc calls r)
  show ?case
  proof (cases "step \<le> acc")
    case True
    with 1(2) have a: "f cbs step (acc - step) (calls @ fixed_tick cbs step) = Some r"
      by simp
    from True 1(3) have b: "fixed_updates cbs step (acc - step) (calls @ fixed_tick cbs step) = Some r"
      by (subst (asm) fixed_updates.simps) simp
    from 1(1) [OF a b] have "0 < step \<or> acc - step < step" .
    with True show ?thesis by auto
  next
    case False
    then show ?thesis by simp
  qed
qed (rule assms)

lemma fixed_updates_diverges:
  assumes "step \<le> 0" "step \<le> acc"
  shows "fixed_updates cbs step acc calls = None"
proof (cases "fixed_updates cbs step acc calls")
  case None
  then show ?thesis .
next
  case (Some r)
  from fixed_updates_Some_step [OF this] assms show ?thesis by simp
qed




text \<open>The cap is set to 0.1 by the constructor and no operation changes it.\<close>

lemma maxDeltaTime_constant:
  "maxDeltaTime GameLoop_new = 0.1"
  "maxDeltaTime (start now handle gl) = maxDeltaTime gl"
  "maxDeltaTime (stop gl) = maxDeltaTime gl"
  "maxDeltaTime (onUpdate cb gl) = maxDeltaTime gl"
  "maxDeltaTime (onRender cb gl) = maxDeltaTime gl"
  "maxDeltaTime (onFixedUpdate cb gl) = maxDeltaTime gl"
  "maxDeltaTime (removeCallback cb gl) = maxDeltaTime gl"
  "maxDeltaTime (setFixedTimeStep step gl) = maxDeltaTime gl"
  "maxDeltaTime (setTimeScale scale gl) = maxDeltaTime gl"
  "onFrame timestamp handle gl = Some (gl', calls) \<Longrightarrow> maxDeltaTime gl' = maxDeltaTime gl"
  by (auto simp: GameLoop_new_def start_def stop_def onUpdate_def onRender_def onFixedUpdate_def
      removeCallback_def setFixedTimeStep_def setTimeScale_def onFrame_def Let_def
      split: if_splits option.splits)



end
